theory Spec2Isabelle
  imports Main "HOL-Library.Word"
begin

unbundle bit_operations_syntax

section \<open>Faults\<close>

text \<open>
  Python exceptions are values. An exception has a class, the message that \<open>str(e)\<close>
  returns, and the cause attached by \<open>raise ... from err\<close>.
\<close>

datatype exn_class =
  CommError | ResponseError | RequestError | ValueError | AddressValueError
  | AttributeError | TypeError | OSError | StopIteration

datatype exn = Exn exn_class string "exn option"

fun exn_cls :: "exn \<Rightarrow> exn_class" where
  "exn_cls (Exn c m r) = c"

fun str_exn :: "exn \<Rightarrow> string" where
  "str_exn (Exn c m r) = m"

fun exn_cause :: "exn \<Rightarrow> exn option" where
  "exn_cause (Exn c m r) = r"

section \<open>Strings\<close>

text \<open>\<open>str.replace(old, new)\<close> for one-character arguments.\<close>

definition replace_chr :: "char \<Rightarrow> char \<Rightarrow> string \<Rightarrow> string" where
  "replace_chr old new s = map (\<lambda>c. if c = old then new else c) s"

text \<open>\<open>str.split(sep)\<close> for a one-character separator: never an empty list.\<close>

fun split_chr :: "char \<Rightarrow> string \<Rightarrow> string list" where
  "split_chr sep [] = [[]]"
| "split_chr sep (c # cs) =
     (if c = sep then [] # split_chr sep cs
      else (case split_chr sep cs of
              [] \<Rightarrow> [[c]]
            | p # ps \<Rightarrow> (c # p) # ps))"

text \<open>The same tokenizer written for a set of separators, as the specification words it.\<close>

fun split_any :: "char set \<Rightarrow> string \<Rightarrow> string list" where
  "split_any seps [] = [[]]"
| "split_any seps (c # cs) =
     (if c \<in> seps then [] # split_any seps cs
      else (case split_any seps cs of
              [] \<Rightarrow> [[c]]
            | p # ps \<Rightarrow> (c # p) # ps))"

definition backslash :: char where
  "backslash = CHR 0x5C"

definition slash :: char where
  "slash = CHR ''/''"

section \<open>The address validator of the standard library\<close>

text \<open>
  \<open>parse_connection_path\<close> validates its first token with \<open>ipaddress.ip_address\<close>, which
  tries \<open>IPv4Address\<close> and then \<open>IPv6Address\<close> and raises \<open>ValueError\<close> when both
  refuse. The functions below follow the library's string path as of CPython 3.12;
  \<open>None\<close> stands for the raised \<open>AddressValueError\<close> (or \<open>ValueError\<close> inside the
  octet and hextet parsers).
\<close>

definition is_ascii_digit :: "char \<Rightarrow> bool" where
  "is_ascii_digit c = (c \<in> set ''0123456789'')"

definition digit_val :: "char \<Rightarrow> nat" where
  "digit_val c = of_char c - of_char CHR ''0''"

definition int_base10 :: "string \<Rightarrow> nat" where
  "int_base10 s = foldl (\<lambda>a c. 10 * a + digit_val c) 0 s"

definition parse_octet :: "string \<Rightarrow> nat option" where
  "parse_octet octet_str =
     (if octet_str = [] then None
      else if \<not> list_all is_ascii_digit octet_str then None
      else if length octet_str > 3 then None
      else if octet_str \<noteq> ''0'' \<and> hd octet_str = CHR ''0'' then None
      else (let octet_int = int_base10 octet_str in
            if octet_int > 255 then None else Some octet_int))"

text \<open>\<open>int.from_bytes(map(parse_octet, octets), 'big')\<close>: the first failing octet raises.\<close>

fun from_octets :: "nat \<Rightarrow> string list \<Rightarrow> nat option" where
  "from_octets acc [] = Some acc"
| "from_octets acc (s # ss) =
     (case parse_octet s of
        None \<Rightarrow> None
      | Some v \<Rightarrow> from_octets (256 * acc + v) ss)"

definition v4_ip_int_from_string :: "string \<Rightarrow> nat option" where
  "v4_ip_int_from_string ip_str =
     (if ip_str = [] then None
      else (let octets = split_chr CHR ''.'' ip_str in
            if length octets \<noteq> 4 then None
            else from_octets 0 octets))"

definition IPv4Address :: "string \<Rightarrow> nat option" where
  "IPv4Address addr_str =
     (if CHR ''/'' \<in> set addr_str then None
      else v4_ip_int_from_string addr_str)"

definition is_hex_digit :: "char \<Rightarrow> bool" where
  "is_hex_digit c = (c \<in> set ''0123456789ABCDEFabcdef'')"

definition hex_val :: "char \<Rightarrow> nat" where
  "hex_val c =
     (if is_ascii_digit c then of_char c - of_char CHR ''0''
      else if c \<in> set ''abcdef'' then of_char c - of_char CHR ''a'' + 10
      else of_char c - of_char CHR ''A'' + 10)"

definition int_base16 :: "string \<Rightarrow> nat" where
  "int_base16 s = foldl (\<lambda>a c. 16 * a + hex_val c) 0 s"

text \<open>An empty hextet passes both checks and fails in \<open>int('', 16)\<close>.\<close>

definition parse_hextet :: "string \<Rightarrow> nat option" where
  "parse_hextet hextet_str =
     (if \<not> list_all is_hex_digit hextet_str then None
      else if length hextet_str > 4 then None
      else if hextet_str = [] then None
      else Some (int_base16 hextet_str))"

text \<open>\<open>'%x' % n\<close>, lower-case hexadecimal without padding.\<close>

definition hex_chr :: "nat \<Rightarrow> char" where
  "hex_chr d = ''0123456789abcdef'' ! d"

fun hex_digits :: "nat \<Rightarrow> nat \<Rightarrow> string" where
  "hex_digits 0 n = []"
| "hex_digits (Suc k) n =
     (if n < 16 then [hex_chr n] else hex_digits k (n div 16) @ [hex_chr (n mod 16)])"

definition fmt_x :: "nat \<Rightarrow> string" where
  "fmt_x n = hex_digits (Suc n) n"

text \<open>The two loops over \<open>parts_hi\<close> and \<open>parts_lo\<close>: shift by 16 and or the hextet in.\<close>

fun hextets_into :: "nat \<Rightarrow> string list \<Rightarrow> nat option" where
  "hextets_into acc [] = Some acc"
| "hextets_into acc (s # ss) =
     (case parse_hextet s of
        None \<Rightarrow> None
      | Some v \<Rightarrow> hextets_into (push_bit 16 acc OR v) ss)"

definition v6_ip_int_from_string :: "string \<Rightarrow> nat option" where
  "v6_ip_int_from_string ip_str =
     (if ip_str = [] then None
      else (let parts0 = split_chr CHR '':'' ip_str in
        if length parts0 < 3 then None
        else (case (if CHR ''.'' \<in> set (last parts0)
                    then (case IPv4Address (last parts0) of
                            None \<Rightarrow> None
                          | Some ipv4_int \<Rightarrow>
                              Some (butlast parts0
                                    @ [fmt_x (drop_bit 16 ipv4_int AND 0xFFFF),
                                       fmt_x (ipv4_int AND 0xFFFF)]))
                    else Some parts0) of
                None \<Rightarrow> None
              | Some parts \<Rightarrow>
                 if length parts > 9 then None
                 else (let empties = filter (\<lambda>i. parts ! i = []) [1 ..< length parts - 1] in
                   if length empties > 1 then None
                   else (case (case empties of
                          skip_index # _ \<Rightarrow>
                            (let parts_hi = skip_index;
                                 parts_lo = length parts - skip_index - 1 in
                             if hd parts = [] \<and> parts_hi - 1 \<noteq> 0 then None
                             else (let parts_hi = (if hd parts = [] then parts_hi - 1 else parts_hi) in
                               if last parts = [] \<and> parts_lo - 1 \<noteq> 0 then None
                               else (let parts_lo = (if last parts = [] then parts_lo - 1 else parts_lo);
                                         parts_skipped = 8 - (int parts_hi + int parts_lo) in
                                 if parts_skipped < 1 then None
                                 else Some (parts_hi, parts_lo, nat parts_skipped))))
                        | [] \<Rightarrow>
                            if length parts \<noteq> 8 then None
                            else if hd parts = [] then None
                            else if last parts = [] then None
                            else Some (length parts, 0, 0)) of
                      None \<Rightarrow> None
                    | Some (parts_hi, parts_lo, parts_skipped) \<Rightarrow>
                        (case hextets_into 0 (take parts_hi parts) of
                           None \<Rightarrow> None
                         | Some hi \<Rightarrow>
                             hextets_into (push_bit (16 * parts_skipped) hi)
                               (drop (length parts - parts_lo) parts)))))))"

text \<open>\<open>addr, sep, scope_id = ip_str.partition('%')\<close> and the checks on the scope id.\<close>

definition split_scope_id :: "string \<Rightarrow> (string \<times> string option) option" where
  "split_scope_id ip_str =
     (let addr = takeWhile (\<lambda>c. c \<noteq> CHR ''%'') ip_str;
          rest = dropWhile (\<lambda>c. c \<noteq> CHR ''%'') ip_str in
      if rest = [] then Some (addr, None)
      else (let scope_id = tl rest in
            if scope_id = [] \<or> CHR ''%'' \<in> set scope_id then None
            else Some (addr, Some scope_id)))"

definition IPv6Address :: "string \<Rightarrow> nat option" where
  "IPv6Address addr_str =
     (if CHR ''/'' \<in> set addr_str then None
      else (case split_scope_id addr_str of
              None \<Rightarrow> None
            | Some (a, scope) \<Rightarrow> v6_ip_int_from_string a))"

datatype ip_obj = V4 nat | V6 nat

text \<open>\<open>None\<close> is the \<open>ValueError\<close> of \<open>ipaddress.ip_address\<close>.\<close>

definition ip_address :: "string \<Rightarrow> ip_obj option" where
  "ip_address address =
     (case IPv4Address address of
        Some v \<Rightarrow> Some (V4 v)
      | None \<Rightarrow>
          (case IPv6Address address of
             Some v \<Rightarrow> Some (V6 v)
           | None \<Rightarrow> None))"

section \<open>The path parser\<close>

text \<open>
  \<open>PortSegment(port, link)\<close> only stores its arguments. The link is the integer \<open>0\<close> of
  the default segment or a token of the path.
\<close>

datatype link = LinkInt int | LinkStr string

datatype PortSegment = PortSegment string link

text \<open>\<open>(segments[i:i + 2] for i in range(0, len(segments), 2))\<close>\<close>

definition pairs_gen :: "string list \<Rightarrow> string list list" where
  "pairs_gen segments =
     map (\<lambda>k. take 2 (drop (2 * k) segments)) [0 ..< (length segments + 1) div 2]"

text \<open>
  \<open>[PortSegment(port, link) for port, link in pairs]\<close>: unpacking a chunk that does not
  hold exactly two items raises \<open>ValueError\<close>, and the comprehension stops there.
\<close>

fun unpack_pairs :: "string list list \<Rightarrow> exn + PortSegment list" where
  "unpack_pairs [] = Inr []"
| "unpack_pairs (chunk # rest) =
     (case chunk of
        [port, link] \<Rightarrow>
          (case unpack_pairs rest of
             Inl e \<Rightarrow> Inl e
           | Inr ps \<Rightarrow> Inr (PortSegment port (LinkStr link) # ps))
      | _ \<Rightarrow>
          Inl (Exn ValueError
                 (if length chunk < 2
                  then ''not enough values to unpack (expected 2, got 1)''
                  else ''too many values to unpack (expected 2)'') None))"

text \<open>The body of the outer \<open>try\<close>; the argument is the path after \<open>replace\<close>.\<close>

definition parse_body :: "string \<Rightarrow> exn + (string \<times> PortSegment list)" where
  "parse_body path =
     (case split_chr slash path of
        [] \<Rightarrow> Inl (Exn ValueError ''not enough values to unpack (expected at least 1, got 0)'' None)
      | ip # segments \<Rightarrow>
          (case ip_address ip of
             None \<Rightarrow>
               Inl (Exn RequestError (''Invalid IP Address: '' @ ip)
                      (Some (Exn ValueError
                               (''does not appear to be an IPv4 or IPv6 address: '' @ ip) None)))
           | Some _ \<Rightarrow>
               if segments = [] then Inr (ip, [PortSegment ''bp'' (LinkInt 0)])
               else if length segments = 1
                 then Inr (ip, [PortSegment ''bp'' (LinkStr (hd segments))])
               else (case unpack_pairs (pairs_gen segments) of
                       Inl e \<Rightarrow> Inl e
                     | Inr p \<Rightarrow> Inr (ip, p))))"

definition parse_connection_path :: "string \<Rightarrow> exn + (string \<times> PortSegment list)" where
  "parse_connection_path path0 =
     (let path = replace_chr backslash slash path0 in
      case parse_body path of
        Inl err \<Rightarrow>
          Inl (Exn RequestError (''Failed to parse connection path: '' @ path) (Some err))
      | Inr r \<Rightarrow> Inr r)"

text \<open>The tokens the parser works on, and the pairing the specification describes.\<close>

definition path_tokens :: "string \<Rightarrow> string list" where
  "path_tokens path0 = split_chr slash (replace_chr backslash slash path0)"

fun consecutive_pairs :: "string list \<Rightarrow> PortSegment list" where
  "consecutive_pairs (port # link # rest) = PortSegment port (LinkStr link) # consecutive_pairs rest"
| "consecutive_pairs _ = []"

section \<open>The sequence counter\<close>

text \<open>
  \<open>itertools.cycle(iterable)\<close> yields the items of the iterable and then the saved
  copy of them again and again; on an empty iterable \<open>next\<close> raises \<open>StopIteration\<close>
  (\<open>None\<close> here).
\<close>

record cycle =
  saved :: "nat list"
  pos :: nat

definition cycle_of :: "nat list \<Rightarrow> cycle" where
  "cycle_of xs = \<lparr>saved = xs, pos = 0\<rparr>"

definition py_range :: "nat \<Rightarrow> nat \<Rightarrow> nat list" where
  "py_range a b = [a ..< b]"

definition next_cycle :: "cycle \<Rightarrow> (nat \<times> cycle) option" where
  "next_cycle c =
     (if saved c = [] then None
      else Some (saved c ! pos c,
                 c\<lparr>pos := (if Suc (pos c) = length (saved c) then 0 else Suc (pos c))\<rparr>))"

text \<open>\<open>[next(c) for _ in range(n)]\<close>\<close>

fun draws :: "nat \<Rightarrow> cycle \<Rightarrow> nat list option" where
  "draws 0 c = Some []"
| "draws (Suc n) c =
     (case next_cycle c of
        None \<Rightarrow> None
      | Some (v, c') \<Rightarrow> map_option (\<lambda>vs. v # vs) (draws n c'))"

text \<open>\<open>self._sequence = cycle(range(1, 65535))\<close>\<close>

definition fresh_sequence :: cycle where
  "fresh_sequence = cycle_of (py_range 1 65535)"

section \<open>Requests, frames and results\<close>

type_synonym bytes = "nat list"

text \<open>
  The constants of \<open>const\<close> and \<open>cip\<close> stay symbolic. \<open>UINT v\<close> and \<open>UDINT v\<close> are
  \<open>UINT.encode(v)\<close> and \<open>UDINT.encode(v)\<close>, the 16-bit and 32-bit unsigned encodings;
  \<open>request_data\<close> is the list that \<open>b''.join\<close> concatenates.
\<close>

datatype field =
  PRIORITY | TIMEOUT_TICKS | TIMEOUT_MULTIPLIER | TRANSPORT_CLASS
  | Raw bytes | UINT int | UDINT int

datatype service =
  ForwardOpen | LargeForwardOpen | ForwardClose | GetAttributesAll | Service bytes

datatype operand = Named string | Given bytes

text \<open>
  \<open>MsgRouterPath\<close> stands for the segments of the constant \<open>MSG_ROUTER_PATH\<close>, and
  \<open>Encoded segs length pad_length\<close> for \<open>PADDED_EPATH.encode(segs, length=..., pad_length=...)\<close>.
\<close>

datatype CIPSegment = PortSeg PortSegment | MsgRouterPath

datatype route = Encoded "CIPSegment list" bool bool | RawRoute bytes

datatype req_kind =
  RegisterSession | UnregisterSession | ListIdentity | GenericConnected | GenericUnconnected

record request =
  kind :: req_kind
  rq_service :: "service option"
  rq_class_code :: "operand option"
  rq_instance :: "operand option"
  rq_attribute :: "operand option"
  rq_request_data :: "field list"
  rq_data_type :: "string option"
  rq_route_path :: "route option"
  rq_unconnected_send :: "bool option"

text \<open>What \<open>build_request\<close> is given, and so what goes on the wire.\<close>

record frame =
  f_request :: request
  f_target_cid :: "bytes option"
  f_session_id :: "nat option"
  f_sequence :: "nat option"

text \<open>The response object: its truth value, \<open>value\<close>, \<open>error\<close> and \<open>session\<close>.\<close>

record response =
  is_valid :: bool
  resp_value :: "bytes option"
  resp_error :: "string option"
  resp_session :: nat

text \<open>\<open>Tag(name, value, None, error=...)\<close>\<close>

record tag =
  tag_name :: string
  tag_value :: "bytes option"
  tag_error :: "string option"

section \<open>The environment and the driver\<close>

text \<open>
  The transport and the packet classes are collaborators. \<open>net n\<close> is what the \<open>n\<close>-th
  call on the socket meets: an exception, or success (with the bytes a \<open>receive\<close>
  returns). \<open>request_error\<close> is the request's \<open>error\<close> attribute, \<open>response_class\<close> the
  decoder \<open>request.response_class(request, reply)\<close>, \<open>identity_decode\<close> stands for
  \<open>ModuleIdentityObject.decode\<close>, \<open>tag_bool\<close> is the truth value of a \<open>Tag\<close>, and
  \<open>urandom n\<close> is the \<open>n\<close>-th result of \<open>urandom(4)\<close>.
\<close>

datatype sock_event = Raises exn | Returns bytes

record env =
  net :: "nat \<Rightarrow> sock_event"
  urandom :: "nat \<Rightarrow> bytes"
  request_error :: "request \<Rightarrow> string option"
  response_class :: "request \<Rightarrow> bytes option \<Rightarrow> response"
  identity_decode :: "bytes option \<Rightarrow> exn + bytes"
  tag_bool :: "tag \<Rightarrow> bool"

datatype socket = Socket

text \<open>
  The attributes of a \<open>CIPDriver\<close>, and with them the trace of its transport: the number
  of socket calls made, the number of \<open>urandom\<close> calls, and the frames sent.
\<close>

record driver =
  sequence :: cycle
  sock :: "socket option"
  session :: "nat option"
  connection_opened :: bool
  target_cid :: "bytes option"
  target_is_connected :: bool
  cfg_ip_address :: string
  cfg_cip_path :: "PortSegment list"
  cfg_cid :: bytes
  cfg_vsn :: bytes
  cfg_extended_forward_open :: bool
  calls :: nat
  rand_calls :: nat
  wire :: "frame list"

definition CIPDriver_init ::
    "string \<Rightarrow> bool \<Rightarrow> socket option \<Rightarrow> nat option \<Rightarrow> exn + driver" where
  "CIPDriver_init path large_packets kw_socket kw_session =
     (case parse_connection_path path of
        Inl e \<Rightarrow> Inl e
      | Inr (ip, p) \<Rightarrow>
          Inr \<lparr>sequence = fresh_sequence,
               sock = kw_socket,
               session = kw_session,
               connection_opened = False,
               target_cid = None,
               target_is_connected = False,
               cfg_ip_address = ip,
               cfg_cip_path = p,
               cfg_cid = [0x27, 0x04, 0x19, 0x71],
               cfg_vsn = [0x09, 0x10, 0x19, 0x71],
               cfg_extended_forward_open = large_packets,
               calls = 0,
               rand_calls = 0,
               wire = []\<rparr>)"

definition connected :: "driver \<Rightarrow> bool" where
  "connected s = connection_opened s"

definition connection_size :: "driver \<Rightarrow> int" where
  "connection_size s = (if cfg_extended_forward_open s then 4000 else 500)"

subsection \<open>Transport\<close>

text \<open>A call on \<open>self._sock\<close> while it is \<open>None\<close> raises \<open>AttributeError\<close>.\<close>

definition none_sock :: "string \<Rightarrow> exn" where
  "none_sock attr = Exn AttributeError (''NoneType object has no attribute '' @ attr) None"

definition priv_send :: "env \<Rightarrow> frame \<Rightarrow> driver \<Rightarrow> (exn + unit) \<times> driver" where
  "priv_send E message s =
     (case sock s of
        None \<Rightarrow> (Inl (Exn CommError ''failed to send message'' (Some (none_sock ''send''))), s)
      | Some _ \<Rightarrow>
          (case net E (calls s) of
             Raises err \<Rightarrow>
               (Inl (Exn CommError ''failed to send message'' (Some err)),
                s\<lparr>calls := Suc (calls s)\<rparr>)
           | Returns _ \<Rightarrow>
               (Inr (), s\<lparr>calls := Suc (calls s), wire := wire s @ [message]\<rparr>)))"

definition priv_receive :: "env \<Rightarrow> driver \<Rightarrow> (exn + bytes) \<times> driver" where
  "priv_receive E s =
     (case sock s of
        None \<Rightarrow> (Inl (Exn CommError ''failed to receive reply'' (Some (none_sock ''receive''))), s)
      | Some _ \<Rightarrow>
          (case net E (calls s) of
             Raises err \<Rightarrow>
               (Inl (Exn CommError ''failed to receive reply'' (Some err)),
                s\<lparr>calls := Suc (calls s)\<rparr>)
           | Returns reply \<Rightarrow> (Inr reply, s\<lparr>calls := Suc (calls s)\<rparr>)))"

text \<open>\<open>self._sock.connect(ip, port)\<close> and \<open>self._sock.close()\<close> on an existing socket.\<close>

definition sock_connect :: "env \<Rightarrow> driver \<Rightarrow> (exn + unit) \<times> driver" where
  "sock_connect E s =
     (case net E (calls s) of
        Raises err \<Rightarrow> (Inl err, s\<lparr>calls := Suc (calls s)\<rparr>)
      | Returns _ \<Rightarrow> (Inr (), s\<lparr>calls := Suc (calls s)\<rparr>))"

definition sock_close :: "env \<Rightarrow> driver \<Rightarrow> (exn + unit) \<times> driver" where
  "sock_close E s =
     (case net E (calls s) of
        Raises err \<Rightarrow> (Inl err, s\<lparr>calls := Suc (calls s)\<rparr>)
      | Returns _ \<Rightarrow> (Inr (), s\<lparr>calls := Suc (calls s)\<rparr>))"

subsection \<open>The exchange primitive\<close>

text \<open>
  Modelled from the spec: the request classes are not part of the sources at hand. The
  unregister request is the one that expects no reply.
\<close>

definition no_response :: "request \<Rightarrow> bool" where
  "no_response rq = (kind rq = UnregisterSession)"

text \<open>
  Modelled from the spec: \<open>RequestPacket.build_request\<close> is not part of the sources at
  hand. It is given the target connection id, the session id, the context, the option
  and the sequence counter, and it advances the counter once for a connected request and
  not at all for an unconnected one.
\<close>

definition build_request :: "request \<Rightarrow> driver \<Rightarrow> (exn + frame) \<times> driver" where
  "build_request rq s =
     (if kind rq = GenericConnected then
        (case next_cycle (sequence s) of
           None \<Rightarrow> (Inl (Exn StopIteration [] None), s)
         | Some (v, c) \<Rightarrow>
             (Inr \<lparr>f_request = rq, f_target_cid = target_cid s,
                   f_session_id = session s, f_sequence = Some v\<rparr>,
              s\<lparr>sequence := c\<rparr>))
      else
        (Inr \<lparr>f_request = rq, f_target_cid = target_cid s,
              f_session_id = session s, f_sequence = None\<rparr>, s))"

text \<open>\<open>if not request.error\<close> holds for \<open>None\<close> and for the empty string.\<close>

definition send :: "env \<Rightarrow> request \<Rightarrow> driver \<Rightarrow> (exn + response) \<times> driver" where
  "send E rq s =
     (if request_error E rq = None \<or> request_error E rq = Some [] then
        (case build_request rq s of
           (Inl e, s1) \<Rightarrow> (Inl e, s1)
         | (Inr message, s1) \<Rightarrow>
             (case priv_send E message s1 of
                (Inl e, s2) \<Rightarrow> (Inl e, s2)
              | (Inr _, s2) \<Rightarrow>
                  if no_response rq then (Inr (response_class E rq None), s2)
                  else (case priv_receive E s2 of
                          (Inl e, s3) \<Rightarrow> (Inl e, s3)
                        | (Inr reply, s3) \<Rightarrow> (Inr (response_class E rq (Some reply)), s3))))
      else (Inr (response_class E rq None), s))"

subsection \<open>Generic messages and the forward open\<close>

text \<open>
  The \<open>route_path\<close> argument: \<open>True\<close> or \<open>False\<close>, bytes (raw, or the result of
  \<open>PADDED_EPATH.encode\<close>), or a sequence of segments.
\<close>

datatype route_arg = RouteBool bool | RouteBytes route | RouteSegments "CIPSegment list"

text \<open>The arguments of \<open>generic_message\<close>.\<close>

record gm_args =
  a_service :: service
  a_class_code :: operand
  a_instance :: operand
  a_attribute :: operand
  a_request_data :: "field list"
  a_data_type :: "string option"
  a_name :: string
  a_connected :: bool
  a_unconnected_send :: bool
  a_route_path :: route_arg

text \<open>The request that \<open>generic_message\<close> assembles from its arguments.\<close>

definition generic_request :: "gm_args \<Rightarrow> driver \<Rightarrow> request" where
  "generic_request a s =
     \<lparr>kind = (if a_connected a then GenericConnected else GenericUnconnected),
      rq_service = Some (a_service a),
      rq_class_code = Some (a_class_code a),
      rq_instance = Some (a_instance a),
      rq_attribute = Some (a_attribute a),
      rq_request_data = a_request_data a,
      rq_data_type = a_data_type a,
      rq_route_path =
        (if \<not> a_connected a then
           (case a_route_path a of
              RouteBool True \<Rightarrow> Some (Encoded (map PortSeg (cfg_cip_path s)) True True)
            | RouteBool False \<Rightarrow> None
            | RouteBytes b \<Rightarrow> Some b
            | RouteSegments segs \<Rightarrow>
                (if segs \<noteq> [] then Some (Encoded segs True True) else None))
         else None),
      rq_unconnected_send = (if \<not> a_connected a then Some (a_unconnected_send a) else None)\<rparr>"

text \<open>
  \<open>generic_message\<close> after its connection guard: build the request, \<open>send\<close> it, wrap the
  response in a \<open>Tag\<close>. The forward open and the forward close call
  \<open>generic_message(connected=False)\<close>, which is this part alone.
\<close>

definition generic_message_exchange ::
    "env \<Rightarrow> gm_args \<Rightarrow> driver \<Rightarrow> (exn + tag) \<times> driver" where
  "generic_message_exchange E a s =
     (case send E (generic_request a s) s of
        (Inl e, s1) \<Rightarrow> (Inl e, s1)
      | (Inr response, s1) \<Rightarrow>
          (Inr \<lparr>tag_name = a_name a, tag_value = resp_value response,
                tag_error = resp_error response\<rparr>, s1))"

definition init_net_params :: int where
  "init_net_params = 0x4200"

definition net_params :: "driver \<Rightarrow> field" where
  "net_params s =
     (if cfg_extended_forward_open s
      then UDINT ((connection_size s AND 0xFFFF) OR push_bit 16 init_net_params)
      else UINT ((connection_size s AND 0x01FF) OR init_net_params))"

text \<open>The network parameters as the specification words them.\<close>

definition net_params_spec :: "driver \<Rightarrow> field" where
  "net_params_spec s =
     (if cfg_extended_forward_open s
      then UDINT ((4000 AND 0xFFFF) OR push_bit 16 init_net_params)
      else UINT ((500 AND 0xFFFF) OR init_net_params))"

definition forward_open_msg :: "driver \<Rightarrow> field list" where
  "forward_open_msg s =
     [PRIORITY,
      TIMEOUT_TICKS,
      Raw [0, 0, 0, 0],
      Raw (cfg_cid s),
      Raw [0x27, 0x04],
      Raw [0x09, 0x10],
      Raw (cfg_vsn s),
      TIMEOUT_MULTIPLIER,
      Raw [0, 0, 0],
      Raw [0x01, 0x40, 0x20, 0x00],
      net_params s,
      Raw [0x01, 0x40, 0x20, 0x00],
      net_params s,
      TRANSPORT_CLASS]"

definition forward_open_args :: "driver \<Rightarrow> gm_args" where
  "forward_open_args s =
     \<lparr>a_service = (if \<not> cfg_extended_forward_open s then ForwardOpen else LargeForwardOpen),
      a_class_code = Named ''ClassCode.connection_manager'',
      a_instance = Named ''ConnectionManagerInstances.open_request'',
      a_attribute = Given [],
      a_request_data = forward_open_msg s,
      a_data_type = None,
      a_name = ''__FORWARD_OPEN__'',
      a_connected = False,
      a_unconnected_send = False,
      a_route_path =
        RouteBytes (Encoded (map PortSeg (cfg_cip_path s) @ [MsgRouterPath]) True False)\<rparr>"

text \<open>The method \<open>_forward_open\<close>.\<close>

definition priv_forward_open :: "env \<Rightarrow> driver \<Rightarrow> (exn + bool) \<times> driver" where
  "priv_forward_open E s =
     (if target_is_connected s then (Inr True, s)
      else if session s = Some 0
        then (Inl (Exn CommError ''A Session Not Registered Before forward_open.'' None), s)
      else (case generic_message_exchange E (forward_open_args s) s of
              (Inl e, s1) \<Rightarrow> (Inl e, s1)
            | (Inr response, s1) \<Rightarrow>
                if tag_bool E response
                then (case tag_value response of
                        None \<Rightarrow>
                          (Inl (Exn TypeError ''NoneType object is not subscriptable'' None), s1)
                      | Some v \<Rightarrow>
                          (Inr True,
                           s1\<lparr>target_cid := Some (take 4 v), target_is_connected := True\<rparr>))
                else (Inr False, s1)))"

text \<open>
  The decorator. \<open>func\<close> is the wrapped function with its \<open>__name__\<close>. The first
  component computes the variable \<open>opened\<close>.
\<close>

definition forward_open_with_fallback :: "env \<Rightarrow> driver \<Rightarrow> (exn + bool) \<times> driver" where
  "forward_open_with_fallback E s =
     (case priv_forward_open E s of
        (Inl e, s1) \<Rightarrow> (Inl e, s1)
      | (Inr True, s1) \<Rightarrow> (Inr True, s1)
      | (Inr False, s1) \<Rightarrow>
          if cfg_extended_forward_open s1
          then (case priv_forward_open E (s1\<lparr>cfg_extended_forward_open := False\<rparr>) of
                  (Inl e, s2) \<Rightarrow> (Inl e, s2)
                | (Inr True, s2) \<Rightarrow> (Inr True, s2)
                | (Inr False, s2) \<Rightarrow> (Inr False, s2))
          else (Inr False, s1))"

definition with_forward_open ::
    "env \<Rightarrow> string \<times> (driver \<Rightarrow> (exn + 'a) \<times> driver) \<Rightarrow> driver \<Rightarrow> (exn + 'a) \<times> driver" where
  "with_forward_open E func s =
     (case forward_open_with_fallback E s of
        (Inl e, s1) \<Rightarrow> (Inl e, s1)
      | (Inr opened, s1) \<Rightarrow>
          if \<not> opened
          then (Inl (Exn ResponseError
                       (''Target did not connected. '' @ fst func @ '' will not be executed.'')
                       None), s1)
          else snd func s1)"

text \<open>\<open>lambda _: None\<close>\<close>

definition lambda_none :: "string \<times> (driver \<Rightarrow> (exn + unit) \<times> driver)" where
  "lambda_none = (''<lambda>'', \<lambda>s. (Inr (), s))"

definition generic_message :: "env \<Rightarrow> gm_args \<Rightarrow> driver \<Rightarrow> (exn + tag) \<times> driver" where
  "generic_message E a s =
     (if a_connected a
      then (case with_forward_open E lambda_none s of
              (Inl e, s1) \<Rightarrow> (Inl e, s1)
            | (Inr _, s1) \<Rightarrow> generic_message_exchange E a s1)
      else generic_message_exchange E a s)"

subsection \<open>Sessions\<close>

definition plain_request :: "req_kind \<Rightarrow> request" where
  "plain_request k =
     \<lparr>kind = k, rq_service = None, rq_class_code = None, rq_instance = None,
      rq_attribute = None, rq_request_data = [], rq_data_type = None,
      rq_route_path = None, rq_unconnected_send = None\<rparr>"

text \<open>\<open>RequestTypes.register_session(self._cfg['protocol version'])\<close>\<close>

definition register_session_request :: request where
  "register_session_request = (plain_request RegisterSession)\<lparr>rq_request_data := [Raw [0x01, 0x00]]\<rparr>"

text \<open>The method \<open>_register_session\<close>; \<open>if self._session\<close> is false for \<open>None\<close> and for \<open>0\<close>.\<close>

definition priv_register_session :: "env \<Rightarrow> driver \<Rightarrow> (exn + nat option) \<times> driver" where
  "priv_register_session E s =
     (if session s \<noteq> None \<and> session s \<noteq> Some 0 then (Inr (session s), s)
      else (case send E register_session_request (s\<lparr>session := Some 0\<rparr>) of
              (Inl e, s1) \<Rightarrow> (Inl e, s1)
            | (Inr response, s1) \<Rightarrow>
                if is_valid response
                then (Inr (Some (resp_session response)),
                      s1\<lparr>session := Some (resp_session response)\<rparr>)
                else (Inr None, s1)))"

text \<open>
  The body of the \<open>try\<close> in \<open>open\<close>. The result is \<open>True\<close> or \<open>False\<close>; a fault inside
  leaves the attributes as they were when it was raised.
\<close>

definition open_body :: "env \<Rightarrow> driver \<Rightarrow> (exn + bool) \<times> driver" where
  "open_body E s =
     (let s1 = (if sock s = None then s\<lparr>sock := Some Socket\<rparr> else s) in
      case sock_connect E s1 of
        (Inl e, s2) \<Rightarrow> (Inl e, s2)
      | (Inr _, s2) \<Rightarrow>
          (let s3 = s2\<lparr>connection_opened := True,
                       cfg_cid := urandom E (rand_calls s2),
                       cfg_vsn := urandom E (Suc (rand_calls s2)),
                       rand_calls := Suc (Suc (rand_calls s2))\<rparr> in
           case priv_register_session E s3 of
             (Inl e, s4) \<Rightarrow> (Inl e, s4)
           | (Inr None, s4) \<Rightarrow> (Inr False, s4)
           | (Inr (Some _), s4) \<Rightarrow> (Inr True, s4)))"

text \<open>\<open>open\<close> returns \<open>None\<close> when the connection is already open.\<close>

definition open_conn :: "env \<Rightarrow> driver \<Rightarrow> (exn + bool option) \<times> driver" where
  "open_conn E s =
     (if connection_opened s then (Inr None, s)
      else (case open_body E s of
              (Inl err, s1) \<Rightarrow> (Inl (Exn CommError ''failed to open a connection'' (Some err)), s1)
            | (Inr b, s1) \<Rightarrow> (Inr (Some b), s1)))"

text \<open>The method \<open>_un_register_session\<close>.\<close>

definition priv_un_register_session :: "env \<Rightarrow> driver \<Rightarrow> (exn + unit) \<times> driver" where
  "priv_un_register_session E s =
     (case send E (plain_request UnregisterSession) s of
        (Inl e, s1) \<Rightarrow> (Inl e, s1)
      | (Inr _, s1) \<Rightarrow> (Inr (), s1\<lparr>session := None\<rparr>))"

definition forward_close_args :: "driver \<Rightarrow> gm_args" where
  "forward_close_args s =
     \<lparr>a_service = ForwardClose,
      a_class_code = Named ''ClassCode.connection_manager'',
      a_instance = Named ''ConnectionManagerInstances.open_request'',
      a_attribute = Given [],
      a_request_data =
        [PRIORITY, TIMEOUT_TICKS, Raw [0x27, 0x04], Raw [0x09, 0x10], Raw (cfg_vsn s)],
      a_data_type = None,
      a_name = ''__FORWARD_CLOSE__'',
      a_connected = False,
      a_unconnected_send = False,
      a_route_path =
        RouteBytes (Encoded (map PortSeg (cfg_cip_path s) @ [MsgRouterPath]) True True)\<rparr>"

text \<open>The method \<open>_forward_close\<close>.\<close>

definition priv_forward_close :: "env \<Rightarrow> driver \<Rightarrow> (exn + bool) \<times> driver" where
  "priv_forward_close E s =
     (if session s = Some 0
      then (Inl (Exn CommError
                   ''A session need to be registered before to call forward_close.'' None), s)
      else (case generic_message_exchange E (forward_close_args s) s of
              (Inl e, s1) \<Rightarrow> (Inl e, s1)
            | (Inr response, s1) \<Rightarrow>
                if tag_bool E response
                then (Inr True, s1\<lparr>target_is_connected := False\<rparr>)
                else (Inr False, s1)))"

subsection \<open>Closing\<close>

text \<open>\<open>sep.join(strs)\<close>\<close>

fun join_str :: "string \<Rightarrow> string list \<Rightarrow> string" where
  "join_str sep [] = []"
| "join_str sep [x] = x"
| "join_str sep (x # y # r) = x @ sep @ join_str sep (y # r)"

text \<open>The first \<open>try\<close> of \<open>close\<close>: forward close, then unregister, under one handler.\<close>

definition close_session :: "env \<Rightarrow> driver \<Rightarrow> (exn + unit) \<times> driver" where
  "close_session E s =
     (case (if target_is_connected s then priv_forward_close E s else (Inr True, s)) of
        (Inl e, s1) \<Rightarrow> (Inl e, s1)
      | (Inr _, s1) \<Rightarrow>
          if session s1 \<noteq> Some 0 then priv_un_register_session E s1 else (Inr (), s1))"

text \<open>
  The second \<open>try\<close>: close the socket when there is one (a \<open>Socket\<close> object is true).
\<close>

definition close_socket :: "env \<Rightarrow> driver \<Rightarrow> (exn + unit) \<times> driver" where
  "close_socket E s = (if sock s \<noteq> None then sock_close E s else (Inr (), s))"

definition errs_of :: "exn + 'a \<Rightarrow> exn list" where
  "errs_of r = (case r of Inl e \<Rightarrow> [e] | Inr _ \<Rightarrow> [])"

definition close :: "env \<Rightarrow> driver \<Rightarrow> (exn + unit) \<times> driver" where
  "close E s =
     (case close_session E s of
        (r1, s1) \<Rightarrow>
          (case close_socket E s1 of
             (r2, s2) \<Rightarrow>
               (let errs = errs_of r1 @ errs_of r2;
                    s3 = s2\<lparr>sock := None, target_is_connected := False,
                            session := Some 0, connection_opened := False\<rparr> in
                if errs \<noteq> []
                then (Inl (Exn CommError (join_str '' - '' (map str_exn errs)) None), s3)
                else (Inr (), s3))))"

subsection \<open>The other operations\<close>

definition str_opt :: "string option \<Rightarrow> string" where
  "str_opt e = (case e of None \<Rightarrow> ''None'' | Some m \<Rightarrow> m)"

definition module_info_args :: "int \<Rightarrow> gm_args" where
  "module_info_args slot =
     \<lparr>a_service = GetAttributesAll,
      a_class_code = Named ''ClassCode.identity_object'',
      a_instance = Given [1],
      a_attribute = Given [],
      a_request_data = [],
      a_data_type = None,
      a_name = ''generic'',
      a_connected = False,
      a_unconnected_send = True,
      a_route_path =
        RouteBytes (Encoded [PortSeg (PortSegment ''bp'' (LinkInt slot))] True True)\<rparr>"

definition get_module_info_body :: "env \<Rightarrow> int \<Rightarrow> driver \<Rightarrow> (exn + bytes) \<times> driver" where
  "get_module_info_body E slot s =
     (case generic_message E (module_info_args slot) s of
        (Inl e, s1) \<Rightarrow> (Inl e, s1)
      | (Inr response, s1) \<Rightarrow>
          if tag_bool E response then (identity_decode E (tag_value response), s1)
          else (Inl (Exn ResponseError
                       (''generic_message did not return valid data - ''
                        @ str_opt (tag_error response)) None), s1))"

definition get_module_info :: "env \<Rightarrow> int \<Rightarrow> driver \<Rightarrow> (exn + bytes) \<times> driver" where
  "get_module_info E slot s =
     (case get_module_info_body E slot s of
        (Inl err, s1) \<Rightarrow> (Inl (Exn ResponseError ''error getting module info'' (Some err)), s1)
      | (Inr v, s1) \<Rightarrow> (Inr v, s1))"

text \<open>The method \<open>_list_identity\<close>; the identity is the decoded value of the response.\<close>

definition priv_list_identity :: "env \<Rightarrow> driver \<Rightarrow> (exn + bytes option) \<times> driver" where
  "priv_list_identity E s =
     (case send E (plain_request ListIdentity) s of
        (Inl e, s1) \<Rightarrow> (Inl e, s1)
      | (Inr response, s1) \<Rightarrow> (Inr (resp_value response), s1))"

text \<open>
  The operations a caller can run on one driver instance, and the state after running
  one of them or a sequence of them, whatever each returns or raises.
\<close>

datatype operation =
  Open | Close | GenericMessage gm_args | GetModuleInfo int | ListIdentityOp
  | ConnectionSize | Connected

definition run_op :: "env \<Rightarrow> operation \<Rightarrow> driver \<Rightarrow> driver" where
  "run_op E op s =
     (case op of
        Open \<Rightarrow> snd (open_conn E s)
      | Close \<Rightarrow> snd (close E s)
      | GenericMessage a \<Rightarrow> snd (generic_message E a s)
      | GetModuleInfo slot \<Rightarrow> snd (get_module_info E slot s)
      | ListIdentityOp \<Rightarrow> snd (priv_list_identity E s)
      | ConnectionSize \<Rightarrow> s
      | Connected \<Rightarrow> s)"

fun run_ops :: "env \<Rightarrow> operation list \<Rightarrow> driver \<Rightarrow> driver" where
  "run_ops E [] s = s"
| "run_ops E (op # ops) s = run_ops E ops (run_op E op s)"

section \<open>Scenarios\<close>

text \<open>
  Concrete collaborators for running the driver. A tag is true when it has a value and
  no error; a response to a missing reply is invalid.
\<close>

definition std_tag_bool :: "tag \<Rightarrow> bool" where
  "std_tag_bool t = (tag_value t \<noteq> None \<and> tag_error t = None)"

definition accepted :: response where
  "accepted = \<lparr>is_valid = True, resp_value = Some [1, 2, 3, 4, 5, 6], resp_error = None,
               resp_session = 7\<rparr>"

definition rejected :: response where
  "rejected = \<lparr>is_valid = False, resp_value = None, resp_error = Some ''Connection failure'',
               resp_session = 0\<rparr>"

definition no_reply :: response where
  "no_reply = \<lparr>is_valid = False, resp_value = None, resp_error = Some ''No Reply From PLC'',
               resp_session = 0\<rparr>"

text \<open>A target that accepts everything, over a transport that never fails.\<close>

definition quiet_env :: env where
  "quiet_env =
     \<lparr>net = (\<lambda>n. Returns []),
      urandom = (\<lambda>n. [n, n, n, n]),
      request_error = (\<lambda>rq. None),
      response_class = (\<lambda>rq reply. case reply of None \<Rightarrow> no_reply | Some _ \<Rightarrow> accepted),
      identity_decode = (\<lambda>v. case v of None \<Rightarrow> Inl (Exn TypeError [] None) | Some b \<Rightarrow> Inr b),
      tag_bool = std_tag_bool\<rparr>"

text \<open>A target that rejects every forward open, standard or extended.\<close>

definition rejecting_env :: env where
  "rejecting_env =
     quiet_env\<lparr>response_class :=
       (\<lambda>rq reply. case reply of
          None \<Rightarrow> no_reply
        | Some _ \<Rightarrow>
            if rq_service rq = Some LargeForwardOpen \<or> rq_service rq = Some ForwardOpen
            then rejected else accepted)\<rparr>"

text \<open>A target that rejects the extended forward open only.\<close>

definition legacy_env :: env where
  "legacy_env =
     quiet_env\<lparr>response_class :=
       (\<lambda>rq reply. case reply of
          None \<Rightarrow> no_reply
        | Some _ \<Rightarrow> if rq_service rq = Some LargeForwardOpen then rejected else accepted)\<rparr>"

text \<open>A transport on which the socket calls numbered from \<open>k\<close> on all raise.\<close>

definition broken_from :: "nat \<Rightarrow> env" where
  "broken_from k =
     quiet_env\<lparr>net := (\<lambda>n. if k \<le> n then Raises (Exn OSError ''broken pipe'' None)
                           else Returns [])\<rparr>"

text \<open>A transport on which only the socket call numbered \<open>k\<close> raises.\<close>

definition broken_at :: "nat \<Rightarrow> env" where
  "broken_at k =
     quiet_env\<lparr>net := (\<lambda>n. if n = k then Raises (Exn OSError ''broken pipe'' None)
                           else Returns [])\<rparr>"

text \<open>\<open>CIPDriver('10.20.30.100')\<close>, never opened.\<close>

definition fresh_driver :: driver where
  "fresh_driver =
     \<lparr>sequence = fresh_sequence, sock = None, session = None, connection_opened = False,
      target_cid = None, target_is_connected = False, cfg_ip_address = ''10.20.30.100'',
      cfg_cip_path = [PortSegment ''bp'' (LinkInt 0)], cfg_cid = [0x27, 0x04, 0x19, 0x71],
      cfg_vsn = [0x09, 0x10, 0x19, 0x71], cfg_extended_forward_open = True,
      calls = 0, rand_calls = 0, wire = []\<rparr>"

text \<open>A read of attribute 1 of the identity object, connected or unconnected.\<close>

definition sample_args :: "bool \<Rightarrow> gm_args" where
  "sample_args conn =
     \<lparr>a_service = Service [0x0E],
      a_class_code = Given [1],
      a_instance = Given [1],
      a_attribute = Given [1],
      a_request_data = [],
      a_data_type = None,
      a_name = ''vendor'',
      a_connected = conn,
      a_unconnected_send = False,
      a_route_path = RouteBool True\<rparr>"

text \<open>The driver after \<open>open()\<close>, and after a first connected message, on the quiet target.\<close>

definition registered_driver :: driver where
  "registered_driver = run_ops quiet_env [Open] fresh_driver"

definition connected_driver :: driver where
  "connected_driver = run_ops quiet_env [Open, GenericMessage (sample_args True)] fresh_driver"

text \<open>
  The driver after the extended forward open was rejected and the standard one accepted,
  and the driver whose \<open>open()\<close> failed while registering the session.
\<close>

definition downgraded_driver :: driver where
  "downgraded_driver = run_ops legacy_env [Open, GenericMessage (sample_args True)] fresh_driver"

definition unregistered_driver :: driver where
  "unregistered_driver = run_ops (broken_from 1) [Open] fresh_driver"

text \<open>\<open>CIPDriver('10.20.30.100', large_packets=False)\<close> after \<open>open()\<close> on the quiet target.\<close>

definition standard_driver :: driver where
  "standard_driver = registered_driver\<lparr>cfg_extended_forward_open := False\<rparr>"

text \<open>A function to wrap: it does nothing and returns \<open>None\<close>.\<close>

definition read_tag :: "string \<times> (driver \<Rightarrow> (exn + unit) \<times> driver)" where
  "read_tag = (''read_tag'', \<lambda>s. (Inr (), s))"

text \<open>The fault of the guard in \<open>_forward_open\<close>.\<close>

definition session_guard_fault :: exn where
  "session_guard_fault = Exn CommError ''A Session Not Registered Before forward_open.'' None"

section \<open>The path parser: proofs\<close>

lemma pairs_gen_Nil: "pairs_gen [] = []"
  by (simp add: pairs_gen_def)

lemma pairs_gen_single: "pairs_gen [a] = [[a]]"
  by (simp add: pairs_gen_def)

lemma pairs_gen_step: "pairs_gen (a # b # r) = [a, b] # pairs_gen r"
proof -
  have "(length (a # b # r) + 1) div 2 = Suc ((length r + 1) div 2)"
    by simp
  then show ?thesis
    by (simp add: pairs_gen_def map_upt_Suc del: upt_Suc)
qed

lemma unpack_pairs_gen:
  "unpack_pairs (pairs_gen segs) =
     (if even (length segs) then Inr (consecutive_pairs segs)
      else Inl (Exn ValueError ''not enough values to unpack (expected 2, got 1)'' None))"
  by (induction segs rule: consecutive_pairs.induct)
    (simp_all add: pairs_gen_step pairs_gen_Nil pairs_gen_single)

lemma split_chr_not_Nil: "split_chr sep s \<noteq> []"
  by (induction s) (auto split: list.splits)

lemma split_replace_any:
  "split_chr slash (replace_chr backslash slash s) = split_any {slash, backslash} s"
  by (induction s) (auto simp: replace_chr_def split: list.splits)


lemma parse_body_tokens:
  "split_chr slash path = ip # segments \<Longrightarrow>
   parse_body path =
     (if ip_address ip = None
      then Inl (Exn RequestError (''Invalid IP Address: '' @ ip)
                  (Some (Exn ValueError
                           (''does not appear to be an IPv4 or IPv6 address: '' @ ip) None)))
      else if segments = [] then Inr (ip, [PortSegment ''bp'' (LinkInt 0)])
      else if length segments = 1 then Inr (ip, [PortSegment ''bp'' (LinkStr (hd segments))])
      else if even (length segments) then Inr (ip, consecutive_pairs segments)
      else Inl (Exn ValueError ''not enough values to unpack (expected 2, got 1)'' None))"
  by (auto simp: parse_body_def unpack_pairs_gen split: option.splits)

text \<open>
  Claim C4, as the code has it. When the tokens after a valid address are two or more and
  odd in count, the last chunk of the pairwise grouping holds one token, unpacking it
  into \<open>port, link\<close> raises \<open>ValueError\<close>, and the outer handler turns that into the
  \<open>RequestError\<close> \<open>Failed to parse connection path: <path>\<close>: the parser fails and returns
  no pairs.
\<close>

theorem parse_odd_trailing_token_fails:
  assumes "path_tokens path0 = ip # segments"
    and "ip_address ip \<noteq> None"
    and "2 \<le> length segments"
    and "odd (length segments)"
  shows "parse_connection_path path0 =
           Inl (Exn RequestError
                  (''Failed to parse connection path: '' @ replace_chr backslash slash path0)
                  (Some (Exn ValueError ''not enough values to unpack (expected 2, got 1)'' None)))"
proof -
  from assms(1) have tok: "split_chr slash (replace_chr backslash slash path0) = ip # segments"
    by (simp add: path_tokens_def)
  from assms(3) have ne: "segments \<noteq> []" "length segments \<noteq> 1"
    using assms(4) by auto
  show ?thesis
    using assms(2,4) ne
    by (simp add: parse_connection_path_def Let_def parse_body_tokens [OF tok])
qed

lemmas v4_defs = IPv4Address_def v4_ip_int_from_string_def parse_octet_def int_base10_def
  digit_val_def is_ascii_digit_def

lemma v4_10_20_30_100: "IPv4Address ''10.20.30.100'' = Some 169090660"
  by (simp add: v4_defs)

lemma ip_10_20_30_100: "ip_address ''10.20.30.100'' = Some (V4 169090660)"
  by (simp add: ip_address_def v4_10_20_30_100)

lemma v4_1_2_3_4: "IPv4Address ''1.2.3.4'' = Some 16909060"
  by (simp add: v4_defs)

lemma ip_1_2_3_4: "ip_address ''1.2.3.4'' = Some (V4 16909060)"
  by (simp add: ip_address_def v4_1_2_3_4)

lemma v4_loopback6: "IPv4Address ''::1'' = None"
  by (simp add: v4_defs)

lemma v6_loopback6: "IPv6Address ''::1'' = Some 1"
  by (simp add: IPv6Address_def split_scope_id_def v6_ip_int_from_string_def Let_def
      parse_hextet_def int_base16_def hex_val_def is_hex_digit_def is_ascii_digit_def upt_rec)

lemma ip_loopback6: "ip_address ''::1'' = Some (V6 1)"
  by (simp add: ip_address_def v4_loopback6 v6_loopback6)

theorem parse_odd_trailing_token_fails_witness:
  "path_tokens ''10.20.30.100/backplane/2/enet'' = ''10.20.30.100'' # [''backplane'', ''2'', ''enet'']
   \<and> ip_address ''10.20.30.100'' \<noteq> None
   \<and> 2 \<le> length [''backplane'', ''2'', ''enet'']
   \<and> odd (length [''backplane'', ''2'', ''enet''])
   \<and> parse_connection_path ''10.20.30.100/backplane/2/enet'' =
       Inl (Exn RequestError ''Failed to parse connection path: 10.20.30.100/backplane/2/enet''
              (Some (Exn ValueError ''not enough values to unpack (expected 2, got 1)'' None)))"
proof -
  have t: "path_tokens ''10.20.30.100/backplane/2/enet'' = ''10.20.30.100'' # [''backplane'', ''2'', ''enet'']"
    by (simp add: path_tokens_def replace_chr_def slash_def backslash_def)
  have i: "ip_address ''10.20.30.100'' \<noteq> None"
    by (simp add: ip_10_20_30_100)
  have r: "replace_chr backslash slash ''10.20.30.100/backplane/2/enet'' = ''10.20.30.100/backplane/2/enet''"
    by (simp add: replace_chr_def slash_def backslash_def)
  show ?thesis
    using parse_odd_trailing_token_fails [OF t i] t i r by simp
qed

text \<open>
  Claim C4 as stated expects \<open>1.2.3.4/backplane/2/enet\<close> to give the pair
  \<open>(backplane, 2)\<close> with \<open>enet\<close> dropped; the parser raises instead.
\<close>

theorem parse_odd_trailing_token_counterexample:
  "parse_connection_path ''1.2.3.4/backplane/2/enet'' \<noteq>
     Inr (''1.2.3.4'', [PortSegment ''backplane'' (LinkStr ''2'')])
   \<and> parse_connection_path ''1.2.3.4/backplane/2/enet'' =
       Inl (Exn RequestError ''Failed to parse connection path: 1.2.3.4/backplane/2/enet''
              (Some (Exn ValueError ''not enough values to unpack (expected 2, got 1)'' None)))"
proof -
  have tok: "split_chr slash (replace_chr backslash slash ''1.2.3.4/backplane/2/enet'')
               = ''1.2.3.4'' # [''backplane'', ''2'', ''enet'']"
    by (simp add: replace_chr_def slash_def backslash_def)
  have r: "replace_chr backslash slash ''1.2.3.4/backplane/2/enet'' = ''1.2.3.4/backplane/2/enet''"
    by (simp add: replace_chr_def slash_def backslash_def)
  have "parse_connection_path ''1.2.3.4/backplane/2/enet'' =
       Inl (Exn RequestError ''Failed to parse connection path: 1.2.3.4/backplane/2/enet''
              (Some (Exn ValueError ''not enough values to unpack (expected 2, got 1)'' None)))"
    using parse_body_tokens [OF tok] r
    by (simp add: parse_connection_path_def Let_def ip_1_2_3_4)
  then show ?thesis by simp
qed

text \<open>
  Claim C8, as the code has it. The tokens are the pieces of the path between the
  separators, slash and backslash. If \<open>ipaddress.ip_address\<close> refuses the first token (it is
  neither an IPv4 nor an IPv6 address), the parser raises the \<open>RequestError\<close>
  \<open>Failed to parse connection path: <path>\<close>, caused by the \<open>RequestError\<close>
  \<open>Invalid IP Address: <token>\<close>. Otherwise no further token gives the segment
  \<open>(bp, 0)\<close>, one further token gives \<open>(bp, token)\<close>, an even number of further tokens
  gives the consecutive \<open>(port, link)\<close> pairs in order, and an odd number above one
  raises the \<open>RequestError\<close> again.
\<close>

theorem parse_connection_path_cases:
  "path_tokens path0 = split_any {slash, backslash} path0
   \<and> (\<exists>ip segments. path_tokens path0 = ip # segments
        \<and> parse_connection_path path0 =
           (if ip_address ip = None
            then Inl (Exn RequestError
                        (''Failed to parse connection path: '' @ replace_chr backslash slash path0)
                        (Some (Exn RequestError (''Invalid IP Address: '' @ ip)
                                 (Some (Exn ValueError
                                          (''does not appear to be an IPv4 or IPv6 address: '' @ ip)
                                          None)))))
            else if segments = [] then Inr (ip, [PortSegment ''bp'' (LinkInt 0)])
            else if length segments = 1 then Inr (ip, [PortSegment ''bp'' (LinkStr (hd segments))])
            else if even (length segments) then Inr (ip, consecutive_pairs segments)
            else Inl (Exn RequestError
                        (''Failed to parse connection path: '' @ replace_chr backslash slash path0)
                        (Some (Exn ValueError
                                 ''not enough values to unpack (expected 2, got 1)'' None)))))"
proof -
  obtain ip segments where tok: "split_chr slash (replace_chr backslash slash path0) = ip # segments"
    using split_chr_not_Nil by (cases "split_chr slash (replace_chr backslash slash path0)") auto
  have "path_tokens path0 = ip # segments"
    using tok by (simp add: path_tokens_def)
  moreover have "parse_connection_path path0 =
           (if ip_address ip = None
            then Inl (Exn RequestError
                        (''Failed to parse connection path: '' @ replace_chr backslash slash path0)
                        (Some (Exn RequestError (''Invalid IP Address: '' @ ip)
                                 (Some (Exn ValueError
                                          (''does not appear to be an IPv4 or IPv6 address: '' @ ip)
                                          None)))))
            else if segments = [] then Inr (ip, [PortSegment ''bp'' (LinkInt 0)])
            else if length segments = 1 then Inr (ip, [PortSegment ''bp'' (LinkStr (hd segments))])
            else if even (length segments) then Inr (ip, consecutive_pairs segments)
            else Inl (Exn RequestError
                        (''Failed to parse connection path: '' @ replace_chr backslash slash path0)
                        (Some (Exn ValueError
                                 ''not enough values to unpack (expected 2, got 1)'' None))))"
    by (simp add: parse_connection_path_def Let_def parse_body_tokens [OF tok])
  moreover have "path_tokens path0 = split_any {slash, backslash} path0"
    by (simp add: path_tokens_def split_replace_any)
  ultimately show ?thesis by blast
qed

text \<open>
  Claim C8 as stated fails twice: \<open>::1\<close> is no IPv4 address and is accepted, and
  \<open>1.2.3.4/bp/1/enet\<close> has two or more further tokens and yields no pairs.
\<close>

theorem parse_connection_path_counterexample:
  "IPv4Address ''::1'' = None
   \<and> parse_connection_path ''::1'' = Inr (''::1'', [PortSegment ''bp'' (LinkInt 0)])
   \<and> parse_connection_path ''1.2.3.4/bp/1/enet'' =
       Inl (Exn RequestError ''Failed to parse connection path: 1.2.3.4/bp/1/enet''
              (Some (Exn ValueError ''not enough values to unpack (expected 2, got 1)'' None)))"
proof -
  have tok1: "split_chr slash (replace_chr backslash slash ''::1'') = ''::1'' # []"
    by (simp add: replace_chr_def slash_def backslash_def)
  have p1: "parse_connection_path ''::1'' = Inr (''::1'', [PortSegment ''bp'' (LinkInt 0)])"
    using parse_body_tokens [OF tok1]
    by (simp add: parse_connection_path_def Let_def ip_loopback6)
  have tok2: "split_chr slash (replace_chr backslash slash ''1.2.3.4/bp/1/enet'')
               = ''1.2.3.4'' # [''bp'', ''1'', ''enet'']"
    by (simp add: replace_chr_def slash_def backslash_def)
  have r2: "replace_chr backslash slash ''1.2.3.4/bp/1/enet'' = ''1.2.3.4/bp/1/enet''"
    by (simp add: replace_chr_def slash_def backslash_def)
  have p2: "parse_connection_path ''1.2.3.4/bp/1/enet'' =
       Inl (Exn RequestError ''Failed to parse connection path: 1.2.3.4/bp/1/enet''
              (Some (Exn ValueError ''not enough values to unpack (expected 2, got 1)'' None)))"
    using parse_body_tokens [OF tok2] r2
    by (simp add: parse_connection_path_def Let_def ip_1_2_3_4)
  show ?thesis using v4_loopback6 p1 p2 by simp
qed

section \<open>The sequence counter: proofs\<close>

lemma draws_cycle:
  "pos c < length (saved c) \<Longrightarrow>
   draws n c = Some (map (\<lambda>k. saved c ! ((pos c + k) mod length (saved c))) [0 ..< n])"
proof (induction n arbitrary: c)
  case 0
  then show ?case by simp
next
  case (Suc n)
  let ?len = "length (saved c)"
  let ?c' = "c\<lparr>pos := (if Suc (pos c) = ?len then 0 else Suc (pos c))\<rparr>"
  from Suc.prems have ne: "saved c \<noteq> []" by auto
  have nx: "next_cycle c = Some (saved c ! pos c, ?c')"
    using ne by (simp add: next_cycle_def)
  have p': "pos ?c' < length (saved ?c')"
    using Suc.prems by auto
  have shift: "(pos ?c' + k) mod ?len = (pos c + Suc k) mod ?len" for k
  proof (cases "Suc (pos c) = ?len")
    case True
    have "(pos c + Suc k) mod ?len = (Suc (pos c) + k) mod ?len" by simp
    also have "\<dots> = (?len + k) mod ?len" using True by simp
    also have "\<dots> = k mod ?len" by simp
    finally show ?thesis using True by simp
  next
    case False
    then show ?thesis by simp
  qed
  have "draws n ?c' = Some (map (\<lambda>k. saved c ! ((pos c + Suc k) mod ?len)) [0 ..< n])"
    using Suc.IH [OF p'] shift by simp
  moreover have "saved c ! pos c = saved c ! ((pos c + 0) mod ?len)"
    using Suc.prems by simp
  ultimately show ?case
    using nx by (simp add: map_upt_Suc del: upt_Suc)
qed

lemma fresh_sequence_draws:
  "draws n fresh_sequence = Some (map (\<lambda>k. 1 + k mod 65534) [0 ..< n])"
proof -
  have len: "length (saved fresh_sequence) = 65534"
    by (simp add: fresh_sequence_def cycle_of_def py_range_def)
  have p: "pos fresh_sequence < length (saved fresh_sequence)"
    by (simp add: len) (simp add: fresh_sequence_def cycle_of_def)
  have nth: "saved fresh_sequence ! ((pos fresh_sequence + k) mod length (saved fresh_sequence))
             = 1 + k mod 65534" for k
  proof -
    have "k mod 65534 < (65534::nat)" by simp
    then have "[1 ..< 65535] ! (k mod 65534) = 1 + k mod 65534"
      by (subst nth_upt) simp_all
    then show ?thesis
      by (simp add: fresh_sequence_def cycle_of_def py_range_def)
  qed
  show ?thesis
    using draws_cycle [OF p, of n] nth by simp
qed

lemma map_suc_upt: "map (\<lambda>k. 1 + k mod m) [0 ..< m] = [1 ..< Suc m]"
proof -
  have "map (\<lambda>k. 1 + k mod m) [0 ..< m] = map Suc [0 ..< m]"
    by (rule map_cong) simp_all
  then show ?thesis by (simp add: map_Suc_upt)
qed

text \<open>
  Claim C6. The first 65534 draws from the counter of a fresh driver are
  \<open>1, 2, ..., 65534\<close> in this order, so without zero and without repeat; the 65535th
  draw is \<open>1\<close> again; draw number \<open>k\<close> (from 0) is \<open>1 + k mod 65534\<close>, and no draw is \<open>0\<close>.
\<close>

theorem sequence_counter:
  "draws 65534 fresh_sequence = Some [1 ..< 65535]
   \<and> distinct [1 ..< (65535::nat)]
   \<and> draws 65535 fresh_sequence = Some ([1 ..< 65535] @ [1])
   \<and> draws n fresh_sequence = Some (map (\<lambda>k. 1 + k mod 65534) [0 ..< n])
   \<and> 0 \<notin> set (the (draws n fresh_sequence))"
proof -
  have a: "draws 65534 fresh_sequence = Some [1 ..< 65535]"
    using map_suc_upt [of 65534] by (simp add: fresh_sequence_draws)
  have "[0 ..< 65535] = [0 ..< 65534] @ [65534::nat]"
    using upt_Suc_append [of 0 65534] by simp
  then have "map (\<lambda>k. 1 + k mod 65534) [0 ..< 65535] = [1 ..< 65535] @ [1]"
    using map_suc_upt [of 65534] by simp
  then have b: "draws 65535 fresh_sequence = Some ([1 ..< 65535] @ [1])"
    by (simp add: fresh_sequence_draws)
  have c: "0 \<notin> set (the (draws n fresh_sequence))"
    by (auto simp: fresh_sequence_draws)
  show ?thesis
    using a b c fresh_sequence_draws by simp
qed

section \<open>The network parameters: proofs\<close>

lemma net_params_values:
  "net_params s = (if cfg_extended_forward_open s then UDINT 0x42000FA0 else UINT 0x43F4)"
  by (simp add: net_params_def connection_size_def init_net_params_def)

text \<open>
  Claim C9. The network parameters are the initialization constant \<open>0x4200\<close> combined
  with the frame size. For the extended forward open the result is the 32-bit value
  \<open>0x42000FA0\<close>: the size 4000 in the low 16 bits and the constant shifted 16 bits above
  it. For the standard forward open it is the 16-bit value \<open>0x43F4\<close>: the size 500 in the
  low bits and the constant, unshifted, in the bits above. The code masks the standard
  size with \<open>0x01FF\<close>, which leaves 500 as the 16-bit mask of the specification does. The
  request carries the field twice.
\<close>

theorem net_params_packing:
  "net_params s = net_params_spec s
   \<and> net_params s = (if cfg_extended_forward_open s then UDINT 0x42000FA0 else UINT 0x43F4)
   \<and> (0x42000FA0::int) AND 0xFFFF = 4000
   \<and> drop_bit 16 (0x42000FA0::int) = init_net_params
   \<and> uint (word_of_int 0x42000FA0 :: 32 word) = 0x42000FA0
   \<and> (0x43F4::int) AND 0x01FF = 500
   \<and> (0x43F4::int) AND 0xFE00 = init_net_params
   \<and> uint (word_of_int 0x43F4 :: 16 word) = 0x43F4
   \<and> forward_open_msg s ! 10 = net_params s
   \<and> forward_open_msg s ! 12 = net_params s"
proof -
  have "net_params s = net_params_spec s"
    by (simp add: net_params_def net_params_spec_def connection_size_def init_net_params_def)
  moreover have "forward_open_msg s ! 10 = net_params s" "forward_open_msg s ! 12 = net_params s"
    by (simp_all add: forward_open_msg_def)
  moreover have "drop_bit 16 (0x42000FA0::int) = init_net_params"
    by (simp add: init_net_params_def drop_bit_eq_div)
  moreover have "(0x43F4::int) AND 0xFE00 = init_net_params"
    by (simp add: init_net_params_def)
  ultimately show ?thesis
    by (simp add: net_params_values)
qed

section \<open>What each method leaves unchanged\<close>

lemma priv_send_frame:
  "priv_send E m s = (r, s') \<Longrightarrow>
   sock s' = sock s \<and> session s' = session s
   \<and> cfg_extended_forward_open s' = cfg_extended_forward_open s
   \<and> target_is_connected s' = target_is_connected s
   \<and> connection_opened s' = connection_opened s
   \<and> sequence s' = sequence s
   \<and> length (wire s') \<le> Suc (length (wire s))"
  by (auto simp: priv_send_def split: option.splits sock_event.splits)

lemma priv_receive_frame:
  "priv_receive E s = (r, s') \<Longrightarrow>
   sock s' = sock s \<and> session s' = session s
   \<and> cfg_extended_forward_open s' = cfg_extended_forward_open s
   \<and> target_is_connected s' = target_is_connected s
   \<and> connection_opened s' = connection_opened s
   \<and> sequence s' = sequence s
   \<and> wire s' = wire s"
  by (auto simp: priv_receive_def split: option.splits sock_event.splits)

lemma build_request_frame:
  "build_request rq s = (r, s') \<Longrightarrow>
   sock s' = sock s \<and> session s' = session s
   \<and> cfg_extended_forward_open s' = cfg_extended_forward_open s
   \<and> target_is_connected s' = target_is_connected s
   \<and> connection_opened s' = connection_opened s
   \<and> wire s' = wire s"
  by (auto simp: build_request_def split: option.splits if_splits)

lemma send_frame:
  "send E rq s = (r, s') \<Longrightarrow>
   sock s' = sock s \<and> session s' = session s
   \<and> cfg_extended_forward_open s' = cfg_extended_forward_open s
   \<and> target_is_connected s' = target_is_connected s
   \<and> connection_opened s' = connection_opened s
   \<and> length (wire s') \<le> Suc (length (wire s))"
  unfolding send_def
  by (auto split: if_splits prod.splits sum.splits
      dest!: priv_send_frame priv_receive_frame build_request_frame)

lemma exchange_frame:
  "generic_message_exchange E a s = (r, s') \<Longrightarrow>
   sock s' = sock s \<and> session s' = session s
   \<and> cfg_extended_forward_open s' = cfg_extended_forward_open s
   \<and> target_is_connected s' = target_is_connected s
   \<and> connection_opened s' = connection_opened s
   \<and> length (wire s') \<le> Suc (length (wire s))"
  unfolding generic_message_exchange_def
  by (auto split: prod.splits sum.splits dest!: send_frame)

lemma priv_forward_open_frame:
  "priv_forward_open E s = (r, s') \<Longrightarrow>
   sock s' = sock s \<and> session s' = session s
   \<and> cfg_extended_forward_open s' = cfg_extended_forward_open s
   \<and> connection_opened s' = connection_opened s
   \<and> length (wire s') \<le> Suc (length (wire s))"
  unfolding priv_forward_open_def
  by (auto split: if_splits prod.splits sum.splits option.splits dest!: exchange_frame)

lemma fallback_frame:
  "forward_open_with_fallback E s = (r, s') \<Longrightarrow>
   sock s' = sock s \<and> session s' = session s
   \<and> (\<not> cfg_extended_forward_open s \<longrightarrow> \<not> cfg_extended_forward_open s')
   \<and> connection_opened s' = connection_opened s"
  unfolding forward_open_with_fallback_def
  by (auto split: if_splits prod.splits sum.splits bool.splits dest!: priv_forward_open_frame)

lemma generic_message_frame:
  "generic_message E a s = (r, s') \<Longrightarrow>
   sock s' = sock s \<and> session s' = session s
   \<and> (\<not> cfg_extended_forward_open s \<longrightarrow> \<not> cfg_extended_forward_open s')
   \<and> connection_opened s' = connection_opened s"
  unfolding generic_message_def with_forward_open_def lambda_none_def
  by (auto split: if_splits prod.splits sum.splits dest!: fallback_frame exchange_frame)

lemma register_session_frame:
  "priv_register_session E s = (r, s') \<Longrightarrow>
   sock s' = sock s \<and> cfg_extended_forward_open s' = cfg_extended_forward_open s"
  unfolding priv_register_session_def
  by (auto split: if_splits prod.splits sum.splits dest!: send_frame)

lemma sock_connect_frame:
  "sock_connect E s = (r, s') \<Longrightarrow>
   sock s' = sock s \<and> cfg_extended_forward_open s' = cfg_extended_forward_open s"
  by (auto simp: sock_connect_def split: sock_event.splits)

lemma sock_close_frame:
  "sock_close E s = (r, s') \<Longrightarrow>
   sock s' = sock s \<and> cfg_extended_forward_open s' = cfg_extended_forward_open s"
  by (auto simp: sock_close_def split: sock_event.splits)

lemma open_conn_frame:
  "open_conn E s = (r, s') \<Longrightarrow>
   cfg_extended_forward_open s' = cfg_extended_forward_open s"
  unfolding open_conn_def open_body_def Let_def
  by (auto split: if_splits prod.splits sum.splits option.splits
      dest!: register_session_frame sock_connect_frame)

lemma un_register_session_frame:
  "priv_un_register_session E s = (r, s') \<Longrightarrow>
   sock s' = sock s \<and> cfg_extended_forward_open s' = cfg_extended_forward_open s"
  unfolding priv_un_register_session_def
  by (auto split: prod.splits sum.splits dest!: send_frame)

lemma priv_forward_close_frame:
  "priv_forward_close E s = (r, s') \<Longrightarrow>
   sock s' = sock s \<and> session s' = session s
   \<and> cfg_extended_forward_open s' = cfg_extended_forward_open s"
  unfolding priv_forward_close_def
  by (auto split: if_splits prod.splits sum.splits dest!: exchange_frame)

lemma close_session_frame:
  "close_session E s = (r, s') \<Longrightarrow>
   sock s' = sock s \<and> cfg_extended_forward_open s' = cfg_extended_forward_open s"
  unfolding close_session_def
  by (auto split: if_splits prod.splits sum.splits
      dest!: priv_forward_close_frame un_register_session_frame)

lemma close_socket_frame:
  "close_socket E s = (r, s') \<Longrightarrow>
   cfg_extended_forward_open s' = cfg_extended_forward_open s"
  unfolding close_socket_def
  by (auto split: if_splits dest!: sock_close_frame)

lemma close_frame:
  "close E s = (r, s') \<Longrightarrow>
   cfg_extended_forward_open s' = cfg_extended_forward_open s"
  unfolding close_def Let_def
  by (auto split: if_splits prod.splits dest!: close_session_frame close_socket_frame)

lemma get_module_info_frame:
  "get_module_info E slot s = (r, s') \<Longrightarrow>
   \<not> cfg_extended_forward_open s \<longrightarrow> \<not> cfg_extended_forward_open s'"
  unfolding get_module_info_def get_module_info_body_def
  by (auto split: if_splits prod.splits sum.splits dest!: generic_message_frame)

lemma list_identity_frame:
  "priv_list_identity E s = (r, s') \<Longrightarrow>
   cfg_extended_forward_open s' = cfg_extended_forward_open s"
  unfolding priv_list_identity_def
  by (auto split: prod.splits sum.splits dest!: send_frame)

lemma run_op_standard:
  assumes std: "\<not> cfg_extended_forward_open s"
  shows "\<not> cfg_extended_forward_open (run_op E op s)"
proof (cases op)
  case Open
  then show ?thesis
    using std open_conn_frame [of E s "fst (open_conn E s)" "snd (open_conn E s)"]
    by (simp add: run_op_def)
next
  case Close
  then show ?thesis
    using std close_frame [of E s "fst (close E s)" "snd (close E s)"]
    by (simp add: run_op_def)
next
  case (GenericMessage a)
  then show ?thesis
    using std generic_message_frame [of E a s "fst (generic_message E a s)" "snd (generic_message E a s)"]
    by (simp add: run_op_def)
next
  case (GetModuleInfo slot)
  then show ?thesis
    using std get_module_info_frame [of E slot s "fst (get_module_info E slot s)"
        "snd (get_module_info E slot s)"]
    by (simp add: run_op_def)
next
  case ListIdentityOp
  then show ?thesis
    using std list_identity_frame [of E s "fst (priv_list_identity E s)" "snd (priv_list_identity E s)"]
    by (simp add: run_op_def)
next
  case ConnectionSize
  then show ?thesis using std by (simp add: run_op_def)
next
  case Connected
  then show ?thesis using std by (simp add: run_op_def)
qed

lemma run_ops_standard:
  "\<not> cfg_extended_forward_open s \<Longrightarrow> \<not> cfg_extended_forward_open (run_ops E ops s)"
  by (induction ops arbitrary: s) (simp_all add: run_op_standard)

section \<open>The scenarios, evaluated\<close>

lemmas env_defs = quiet_env_def rejecting_env_def legacy_env_def broken_from_def broken_at_def
  accepted_def rejected_def no_reply_def std_tag_bool_def

lemmas op_defs = run_op_def open_conn_def open_body_def sock_connect_def sock_close_def
  priv_register_session_def register_session_request_def plain_request_def
  send_def build_request_def priv_send_def priv_receive_def no_response_def
  generic_message_def lambda_none_def with_forward_open_def forward_open_with_fallback_def
  priv_forward_open_def generic_message_exchange_def generic_request_def
  forward_open_args_def priv_forward_close_def forward_close_args_def
  priv_un_register_session_def close_def close_session_def close_socket_def errs_of_def

lemma downgraded_standard: "\<not> cfg_extended_forward_open downgraded_driver"
  by (simp add: downgraded_driver_def fresh_driver_def sample_args_def op_defs env_defs
      fresh_sequence_def cycle_of_def py_range_def next_cycle_def)

lemma registered_driver_eq:
  "registered_driver =
     fresh_driver\<lparr>sock := Some Socket, session := Some 7, connection_opened := True,
       cfg_cid := [0, 0, 0, 0], cfg_vsn := [1, 1, 1, 1], calls := 3, rand_calls := 2,
       wire := [\<lparr>f_request = register_session_request, f_target_cid = None,
                 f_session_id = Some 0, f_sequence = None\<rparr>]\<rparr>"
  by (simp add: registered_driver_def fresh_driver_def op_defs env_defs)

lemma standard_driver_eq:
  "standard_driver =
     fresh_driver\<lparr>sock := Some Socket, session := Some 7, connection_opened := True,
       cfg_cid := [0, 0, 0, 0], cfg_vsn := [1, 1, 1, 1], cfg_extended_forward_open := False,
       calls := 3, rand_calls := 2,
       wire := [\<lparr>f_request = register_session_request, f_target_cid = None,
                 f_session_id = Some 0, f_sequence = None\<rparr>]\<rparr>"
  by (simp add: standard_driver_def registered_driver_eq fresh_driver_def)

lemmas run_defs = registered_driver_eq standard_driver_eq fresh_driver_def sample_args_def
  read_tag_def op_defs env_defs

lemma parse_plain_address:
  "parse_connection_path ''10.20.30.100'' = Inr (''10.20.30.100'', [PortSegment ''bp'' (LinkInt 0)])"
proof -
  have tok: "split_chr slash (replace_chr backslash slash ''10.20.30.100'') = ''10.20.30.100'' # []"
    by (simp add: replace_chr_def slash_def backslash_def)
  show ?thesis
    using parse_body_tokens [OF tok]
    by (simp add: parse_connection_path_def Let_def ip_10_20_30_100)
qed

lemma init_fresh_driver: "CIPDriver_init ''10.20.30.100'' True None None = Inr fresh_driver"
  by (simp add: CIPDriver_init_def parse_plain_address fresh_driver_def)

lemma unregistered_driver_eq:
  "unregistered_driver =
     fresh_driver\<lparr>sock := Some Socket, session := Some 0, connection_opened := True,
       cfg_cid := [0, 0, 0, 0], cfg_vsn := [1, 1, 1, 1], calls := 2, rand_calls := 2\<rparr>"
  by (simp add: unregistered_driver_def fresh_driver_def op_defs env_defs)

lemma sequence_not_empty: "saved fresh_sequence \<noteq> []"
  by (simp add: fresh_sequence_def cycle_of_def py_range_def)

lemma first_draw: "next_cycle fresh_sequence = Some (1, fresh_sequence\<lparr>pos := 1\<rparr>)"
proof -
  have "[1 ..< 65535] ! 0 = (1::nat)"
    by (subst nth_upt) simp_all
  then show ?thesis
    by (simp add: next_cycle_def fresh_sequence_def cycle_of_def py_range_def)
qed

lemma connected_driver_facts:
  "target_is_connected connected_driver"
  "session connected_driver = Some 7"
  "sock connected_driver = Some Socket"
  "calls connected_driver = 7"
  by (simp_all add: connected_driver_def run_defs first_draw)

lemma registered_facts:
  "saved (sequence registered_driver) \<noteq> []"
  "sock registered_driver \<noteq> None"
  "calls registered_driver = 3"
  by (simp_all add: registered_driver_eq fresh_driver_def sequence_not_empty)

section \<open>The frame-size preference: proofs\<close>

text \<open>
  Claim C7. No operation turns the preference from Standard back to Extended: once it is
  Standard it stays Standard through any sequence of operations, so the only change an
  operation can make is from Extended to Standard. The reported capacity is 4000 while
  the preference is Extended and 500 while it is Standard.
\<close>

theorem frame_size_preference_sticky:
  "(\<not> cfg_extended_forward_open s \<longrightarrow> \<not> cfg_extended_forward_open (run_ops E ops s))
   \<and> (\<not> cfg_extended_forward_open s \<longrightarrow> connection_size (run_ops E ops s) = 500)
   \<and> connection_size s = (if cfg_extended_forward_open s then 4000 else 500)"
  by (simp add: run_ops_standard connection_size_def)

text \<open>
  A driver downgraded by one rejected extended forward open stays Standard when it is
  closed, opened and used again on a target that accepts the extended forward open.
\<close>

theorem frame_size_preference_sticky_witness:
  "cfg_extended_forward_open fresh_driver
   \<and> connection_size fresh_driver = 4000
   \<and> \<not> cfg_extended_forward_open downgraded_driver
   \<and> \<not> cfg_extended_forward_open
        (run_ops quiet_env [Close, Open, GenericMessage (sample_args True)] downgraded_driver)
   \<and> connection_size
        (run_ops quiet_env [Close, Open, GenericMessage (sample_args True)] downgraded_driver) = 500"
  using frame_size_preference_sticky [of downgraded_driver quiet_env
      "[Close, Open, GenericMessage (sample_args True)]"]
    frame_size_preference_sticky [of fresh_driver quiet_env "[]"]
    downgraded_standard
  by (simp add: fresh_driver_def)

section \<open>The fallback wrapper: proofs\<close>

lemma with_forward_open_cases:
  "with_forward_open E func s =
     (case priv_forward_open E s of
        (Inl e, s1) \<Rightarrow> (Inl e, s1)
      | (Inr True, s1) \<Rightarrow> snd func s1
      | (Inr False, s1) \<Rightarrow>
          if cfg_extended_forward_open s1
          then (case priv_forward_open E (s1\<lparr>cfg_extended_forward_open := False\<rparr>) of
                  (Inl e, s2) \<Rightarrow> (Inl e, s2)
                | (Inr True, s2) \<Rightarrow> snd func s2
                | (Inr False, s2) \<Rightarrow>
                    (Inl (Exn ResponseError
                            (''Target did not connected. '' @ fst func @ '' will not be executed.'')
                            None), s2))
          else (Inl (Exn ResponseError
                       (''Target did not connected. '' @ fst func @ '' will not be executed.'')
                       None), s1))"
  by (simp add: with_forward_open_def forward_open_with_fallback_def
      split: prod.splits sum.splits bool.splits)

text \<open>
  Claim C1. The wrapper first calls \<open>_forward_open\<close>. If that reports success the wrapped
  function runs. If it reports failure while the preference is Extended, the preference
  becomes Standard and \<open>_forward_open\<close> is called once more: on success the wrapped
  function runs, on failure it does not run and the \<open>ResponseError\<close>
  \<open>Target did not connected. <name> will not be executed.\<close> is raised, after at most two
  forward-open frames. If the first call reports failure while the preference is
  Standard, there is no second call: the same fault is raised after at most one frame.
\<close>

theorem with_forward_open_fallback:
  fixes E :: env and s :: driver and func :: "string \<times> (driver \<Rightarrow> (exn + 'a) \<times> driver)"
  defines "s1 \<equiv> snd (priv_forward_open E s)"
  defines "s2 \<equiv> snd (priv_forward_open E (s1\<lparr>cfg_extended_forward_open := False\<rparr>))"
  defines "fault \<equiv> Exn ResponseError
                      (''Target did not connected. '' @ fst func @ '' will not be executed.'') None"
  shows
  "(fst (priv_forward_open E s) = Inr True \<longrightarrow>
      with_forward_open E func s = snd func s1
      \<and> cfg_extended_forward_open s1 = cfg_extended_forward_open s)
   \<and> (fst (priv_forward_open E s) = Inr False \<and> cfg_extended_forward_open s
        \<and> fst (priv_forward_open E (s1\<lparr>cfg_extended_forward_open := False\<rparr>)) = Inr True \<longrightarrow>
      with_forward_open E func s = snd func s2
      \<and> \<not> cfg_extended_forward_open s2)
   \<and> (fst (priv_forward_open E s) = Inr False \<and> cfg_extended_forward_open s
        \<and> fst (priv_forward_open E (s1\<lparr>cfg_extended_forward_open := False\<rparr>)) = Inr False \<longrightarrow>
      with_forward_open E func s = (Inl fault, s2)
      \<and> \<not> cfg_extended_forward_open s2
      \<and> length (wire s2) \<le> length (wire s) + 2)
   \<and> (fst (priv_forward_open E s) = Inr False \<and> \<not> cfg_extended_forward_open s \<longrightarrow>
      with_forward_open E func s = (Inl fault, s1)
      \<and> \<not> cfg_extended_forward_open s1
      \<and> length (wire s1) \<le> length (wire s) + 1)"
proof -
  obtain r1 where p1: "priv_forward_open E s = (r1, s1)"
    by (simp add: s1_def prod_eq_iff)
  obtain r2 where p2: "priv_forward_open E (s1\<lparr>cfg_extended_forward_open := False\<rparr>) = (r2, s2)"
    by (simp add: s2_def prod_eq_iff)
  note f1 = priv_forward_open_frame [OF p1]
  note f2 = priv_forward_open_frame [OF p2]
  have ext1: "cfg_extended_forward_open s1 = cfg_extended_forward_open s"
    using f1 by simp
  have ext2: "\<not> cfg_extended_forward_open s2"
    using f2 by simp
  have w1: "length (wire s1) \<le> length (wire s) + 1"
    using f1 by simp
  have w2: "length (wire s2) \<le> length (wire s) + 2"
    using f1 f2 by simp
  show ?thesis
    using p1 p2 ext1 ext2 w1 w2
    by (auto simp: with_forward_open_cases fault_def)
qed

lemma quiet_first_attempt:
  "fst (priv_forward_open quiet_env registered_driver) = Inr True"
  by (simp add: run_defs)

lemma legacy_first_attempt:
  "fst (priv_forward_open legacy_env registered_driver) = Inr False"
  by (simp add: run_defs)

lemma legacy_second_attempt:
  "fst (priv_forward_open legacy_env
          ((snd (priv_forward_open legacy_env registered_driver))
             \<lparr>cfg_extended_forward_open := False\<rparr>)) = Inr True"
  by (simp add: run_defs)

lemma rejecting_first_attempt:
  "fst (priv_forward_open rejecting_env registered_driver) = Inr False"
  by (simp add: run_defs)

lemma rejecting_second_attempt:
  "fst (priv_forward_open rejecting_env
          ((snd (priv_forward_open rejecting_env registered_driver))
             \<lparr>cfg_extended_forward_open := False\<rparr>)) = Inr False"
  by (simp add: run_defs)

lemma rejecting_standard_attempt:
  "fst (priv_forward_open rejecting_env standard_driver) = Inr False"
  by (simp add: run_defs)

lemma rejecting_wire:
  "map (\<lambda>f. rq_service (f_request f))
     (wire (snd (with_forward_open rejecting_env read_tag registered_driver)))
   = [None, Some LargeForwardOpen, Some ForwardOpen]"
  by (simp add: run_defs)

lemma rejecting_standard_wire:
  "map (\<lambda>f. rq_service (f_request f))
     (wire (snd (with_forward_open rejecting_env read_tag standard_driver)))
   = [None, Some ForwardOpen]"
  by (simp add: run_defs)

text \<open>
  The four cases on concrete targets: one that accepts the extended forward open, one
  that rejects it and accepts the standard one, and one that rejects both, met first by
  a driver that prefers Extended and then by one that prefers Standard.
\<close>

theorem with_forward_open_fallback_witness:
  "fst (priv_forward_open quiet_env registered_driver) = Inr True
   \<and> with_forward_open quiet_env read_tag registered_driver
       = (Inr (), snd (priv_forward_open quiet_env registered_driver))
   \<and> fst (priv_forward_open legacy_env registered_driver) = Inr False
   \<and> cfg_extended_forward_open registered_driver
   \<and> fst (with_forward_open legacy_env read_tag registered_driver) = Inr ()
   \<and> \<not> cfg_extended_forward_open (snd (with_forward_open legacy_env read_tag registered_driver))
   \<and> fst (priv_forward_open rejecting_env registered_driver) = Inr False
   \<and> fst (with_forward_open rejecting_env read_tag registered_driver)
       = Inl (Exn ResponseError ''Target did not connected. read_tag will not be executed.'' None)
   \<and> map (\<lambda>f. rq_service (f_request f))
         (wire (snd (with_forward_open rejecting_env read_tag registered_driver)))
       = [None, Some LargeForwardOpen, Some ForwardOpen]
   \<and> \<not> cfg_extended_forward_open standard_driver
   \<and> fst (priv_forward_open rejecting_env standard_driver) = Inr False
   \<and> fst (with_forward_open rejecting_env read_tag standard_driver)
       = Inl (Exn ResponseError ''Target did not connected. read_tag will not be executed.'' None)
   \<and> map (\<lambda>f. rq_service (f_request f))
         (wire (snd (with_forward_open rejecting_env read_tag standard_driver)))
       = [None, Some ForwardOpen]"
proof -
  have ext: "cfg_extended_forward_open registered_driver"
    by (simp add: registered_driver_eq fresh_driver_def)
  have std: "\<not> cfg_extended_forward_open standard_driver"
    by (simp add: standard_driver_def)
  have name: "fst read_tag = ''read_tag''" and body: "snd read_tag = (\<lambda>s. (Inr (), s))"
    by (simp_all add: read_tag_def)
  show ?thesis
    using with_forward_open_fallback [of quiet_env registered_driver read_tag]
      with_forward_open_fallback [of legacy_env registered_driver read_tag]
      with_forward_open_fallback [of rejecting_env registered_driver read_tag]
      with_forward_open_fallback [of rejecting_env standard_driver read_tag]
      quiet_first_attempt legacy_first_attempt legacy_second_attempt
      rejecting_first_attempt rejecting_second_attempt rejecting_standard_attempt
      rejecting_wire rejecting_standard_wire ext std
    by (simp add: name body)
qed

section \<open>The session guard of the forward open: proofs\<close>

lemma send_faults:
  "send E rq s = (Inl e, s') \<Longrightarrow>
   (\<exists>c. e = Exn CommError ''failed to send message'' (Some c))
   \<or> (\<exists>c. e = Exn CommError ''failed to receive reply'' (Some c))
   \<or> (kind rq = GenericConnected \<and> saved (sequence s) = [] \<and> e = Exn StopIteration [] None)"
  unfolding send_def build_request_def priv_send_def priv_receive_def next_cycle_def
  by (auto split: if_splits prod.splits sum.splits option.splits sock_event.splits)

lemma exchange_faults:
  "generic_message_exchange E a s = (Inl e, s') \<Longrightarrow>
   (\<exists>c. e = Exn CommError ''failed to send message'' (Some c))
   \<or> (\<exists>c. e = Exn CommError ''failed to receive reply'' (Some c))
   \<or> (a_connected a \<and> saved (sequence s) = [] \<and> e = Exn StopIteration [] None)"
  unfolding generic_message_exchange_def
  by (auto split: prod.splits sum.splits dest!: send_faults simp: generic_request_def)

lemma exchange_no_guard_fault:
  "fst (generic_message_exchange E a s) \<noteq> Inl session_guard_fault"
proof
  assume h: "fst (generic_message_exchange E a s) = Inl session_guard_fault"
  then have "generic_message_exchange E a s
               = (Inl session_guard_fault, snd (generic_message_exchange E a s))"
    by (simp add: prod_eq_iff)
  from exchange_faults [OF this] show False
    by (auto simp: session_guard_fault_def)
qed

lemma priv_forward_open_guard:
  "(fst (priv_forward_open E s) = Inl session_guard_fault)
     = (\<not> target_is_connected s \<and> session s = Some 0)"
proof (cases "target_is_connected s \<or> session s = Some 0")
  case True
  then show ?thesis
    by (auto simp: priv_forward_open_def session_guard_fault_def)
next
  case False
  obtain r s1 where ex: "generic_message_exchange E (forward_open_args s) s = (r, s1)"
    by (cases "generic_message_exchange E (forward_open_args s) s")
  have "r \<noteq> Inl session_guard_fault"
    using exchange_no_guard_fault [of E "forward_open_args s" s] ex by simp
  then have "fst (priv_forward_open E s) \<noteq> Inl session_guard_fault"
    using False ex
    by (auto simp: priv_forward_open_def session_guard_fault_def
        split: sum.splits option.splits)
  then show ?thesis using False by simp
qed

lemma fallback_no_guard_fault:
  assumes "session s \<noteq> Some 0"
  shows "fst (forward_open_with_fallback E s) \<noteq> Inl session_guard_fault"
proof -
  obtain r1 s1 where p1: "priv_forward_open E s = (r1, s1)"
    by (cases "priv_forward_open E s")
  have r1: "r1 \<noteq> Inl session_guard_fault"
    using priv_forward_open_guard [of E s] p1 assms by auto
  have s1: "session s1 \<noteq> Some 0"
    using priv_forward_open_frame [OF p1] assms by simp
  obtain r2 s2 where p2: "priv_forward_open E (s1\<lparr>cfg_extended_forward_open := False\<rparr>) = (r2, s2)"
    by (cases "priv_forward_open E (s1\<lparr>cfg_extended_forward_open := False\<rparr>)")
  have r2: "r2 \<noteq> Inl session_guard_fault"
    using priv_forward_open_guard [of E "s1\<lparr>cfg_extended_forward_open := False\<rparr>"] p2 s1 by auto
  show ?thesis
    using p1 p2 r1 r2
    by (auto simp: forward_open_with_fallback_def split: sum.splits bool.splits)
qed

lemma generic_message_no_guard_fault:
  assumes "session s \<noteq> Some 0"
  shows "fst (generic_message E a s) \<noteq> Inl session_guard_fault"
proof -
  obtain r1 s1 where f: "forward_open_with_fallback E s = (r1, s1)"
    by (cases "forward_open_with_fallback E s")
  have r1: "r1 \<noteq> Inl session_guard_fault"
    using fallback_no_guard_fault [OF assms, of E] f by simp
  have e1: "fst (generic_message_exchange E a s1) \<noteq> Inl session_guard_fault"
    and e0: "fst (generic_message_exchange E a s) \<noteq> Inl session_guard_fault"
    by (rule exchange_no_guard_fault)+
  show ?thesis
    using f r1 e0 e1
    by (auto simp: generic_message_def with_forward_open_def lambda_none_def
        session_guard_fault_def split: sum.splits prod.splits)
qed

text \<open>
  Claim C10. When \<open>_forward_open\<close> has to open (the target is not connected yet), it
  raises \<open>A Session Not Registered Before forward_open.\<close> exactly when the stored session
  is \<open>0\<close>. A driver built without a session argument holds \<open>None\<close>, not \<open>0\<close>, so on it
  neither \<open>_forward_open\<close> nor a generic message, connected or not, raises that fault.
\<close>

theorem forward_open_session_guard:
  "(\<not> target_is_connected s \<longrightarrow>
      (fst (priv_forward_open E s) = Inl session_guard_fault) = (session s = Some 0))
   \<and> (CIPDriver_init path large_packets kw_socket None = Inr d \<longrightarrow>
        session d = None
        \<and> fst (priv_forward_open E d) \<noteq> Inl session_guard_fault
        \<and> fst (generic_message E a d) \<noteq> Inl session_guard_fault)"
proof -
  have "session d = None" if "CIPDriver_init path large_packets kw_socket None = Inr d"
    using that by (auto simp: CIPDriver_init_def split: sum.splits)
  then show ?thesis
    using priv_forward_open_guard [of E s] priv_forward_open_guard [of E d]
      generic_message_no_guard_fault [of d E a]
    by auto
qed

text \<open>
  The guard fires on the driver whose \<open>open()\<close> failed while registering (session \<open>0\<close>),
  and does not fire on \<open>CIPDriver('10.20.30.100')\<close> before \<open>open()\<close>.
\<close>

theorem forward_open_session_guard_witness:
  "\<not> target_is_connected unregistered_driver
   \<and> session unregistered_driver = Some 0
   \<and> fst (priv_forward_open quiet_env unregistered_driver) = Inl session_guard_fault
   \<and> CIPDriver_init ''10.20.30.100'' True None None = Inr fresh_driver
   \<and> session fresh_driver = None
   \<and> fst (priv_forward_open quiet_env fresh_driver) \<noteq> Inl session_guard_fault
   \<and> fst (generic_message quiet_env (sample_args True) fresh_driver) \<noteq> Inl session_guard_fault"
proof -
  have a: "\<not> target_is_connected unregistered_driver" "session unregistered_driver = Some 0"
    by (simp_all add: unregistered_driver_eq fresh_driver_def)
  show ?thesis
    using forward_open_session_guard [of unregistered_driver quiet_env
        "''10.20.30.100''" True None fresh_driver "sample_args True"]
      a init_fresh_driver
    by simp
qed

section \<open>Closing a driver that was never opened\<close>

text \<open>
  Claim C5 fails on the code. On \<open>CIPDriver('10.20.30.100')\<close>, never opened, the session
  is \<open>None\<close>, the test \<open>self._session != 0\<close> holds, \<open>close()\<close> tries to unregister
  through a socket that is \<open>None\<close>, and the collected fault is raised as the \<open>CommError\<close>
  \<open>failed to send message\<close>, although nothing was sent.
\<close>

theorem close_never_opened_raises:
  "CIPDriver_init ''10.20.30.100'' True None None = Inr fresh_driver
   \<and> \<not> connection_opened fresh_driver
   \<and> fst (close quiet_env fresh_driver) = Inl (Exn CommError ''failed to send message'' None)
   \<and> wire (snd (close quiet_env fresh_driver)) = []"
  using init_fresh_driver
  by (simp add: fresh_driver_def op_defs env_defs)

section \<open>Closing: proofs\<close>

lemma close_session_cases:
  "(target_is_connected s \<and> fst (priv_forward_close E s) = Inl e \<longrightarrow>
      close_session E s = (Inl e, snd (priv_forward_close E s)))
   \<and> (target_is_connected s \<and> fst (priv_forward_close E s) = Inr b \<and> session s \<noteq> Some 0 \<longrightarrow>
        close_session E s = priv_un_register_session E (snd (priv_forward_close E s)))
   \<and> (\<not> target_is_connected s \<and> session s \<noteq> Some 0 \<longrightarrow>
        close_session E s = priv_un_register_session E s)
   \<and> (\<not> target_is_connected s \<and> session s = Some 0 \<longrightarrow> close_session E s = (Inr (), s))"
proof -
  obtain r1 s1 where p: "priv_forward_close E s = (r1, s1)"
    by (cases "priv_forward_close E s")
  have "session s1 = session s"
    using priv_forward_close_frame [OF p] by simp
  then show ?thesis
    using p by (auto simp: close_session_def)
qed

lemma errs_of_length: "length (errs_of r) \<le> 1"
  by (simp add: errs_of_def split: sum.splits)

text \<open>
  Claim C2, as the code has it. \<open>close()\<close> always ends with the socket handle released
  and the driver reset (not connected, session \<open>0\<close>, not opened). It collects at most
  two faults, one from the session teardown and one from closing the socket, and when it
  collected any it raises one \<open>CommError\<close> whose message joins theirs with \<open>' - '\<close>. The
  socket is closed whenever there is one, whatever the session teardown did. The session
  teardown is one guarded block: a fault raised by the forward close ends it, so the
  session is not unregistered; a forward close that returns (with success or failure) is
  followed by the unregister when the session is not \<open>0\<close>.
\<close>

theorem close_teardown:
  fixes E :: env and s :: driver
  defines "s1 \<equiv> snd (close_session E s)"
  defines "errs \<equiv> errs_of (fst (close_session E s)) @ errs_of (fst (close_socket E s1))"
  shows
  "sock (snd (close E s)) = None
   \<and> \<not> target_is_connected (snd (close E s))
   \<and> session (snd (close E s)) = Some 0
   \<and> \<not> connection_opened (snd (close E s))
   \<and> fst (close E s) =
       (if errs = [] then Inr ()
        else Inl (Exn CommError (join_str '' - '' (map str_exn errs)) None))
   \<and> length errs \<le> 2
   \<and> (sock s \<noteq> None \<longrightarrow>
        close_socket E s1 = sock_close E s1 \<and> calls (snd (close E s)) = Suc (calls s1))
   \<and> (target_is_connected s \<and> fst (priv_forward_close E s) = Inl e \<longrightarrow>
        close_session E s = (Inl e, snd (priv_forward_close E s)))
   \<and> (target_is_connected s \<and> fst (priv_forward_close E s) = Inr b \<and> session s \<noteq> Some 0 \<longrightarrow>
        close_session E s = priv_un_register_session E (snd (priv_forward_close E s)))
   \<and> (\<not> target_is_connected s \<and> session s \<noteq> Some 0 \<longrightarrow>
        close_session E s = priv_un_register_session E s)
   \<and> (\<not> target_is_connected s \<and> session s = Some 0 \<longrightarrow> close_session E s = (Inr (), s))"
proof -
  obtain r1 where c1: "close_session E s = (r1, s1)"
    by (simp add: s1_def prod_eq_iff)
  obtain r2 s2 where c2: "close_socket E s1 = (r2, s2)"
    by (cases "close_socket E s1")
  have sock1: "sock s1 = sock s"
    using close_session_frame [OF c1] by simp
  have attrs: "sock (snd (close E s)) = None" "\<not> target_is_connected (snd (close E s))"
    "session (snd (close E s)) = Some 0" "\<not> connection_opened (snd (close E s))"
    using c1 c2 by (simp_all add: close_def Let_def)
  have res: "fst (close E s) =
       (if errs = [] then Inr ()
        else Inl (Exn CommError (join_str '' - '' (map str_exn errs)) None))"
    using c1 c2 by (simp add: close_def Let_def errs_def)
  have len: "length errs \<le> 2"
    using errs_of_length [of "fst (close_session E s)"] errs_of_length [of "fst (close_socket E s1)"]
    by (simp add: errs_def)
  have sc: "close_socket E s1 = sock_close E s1 \<and> calls (snd (close E s)) = Suc (calls s1)"
    if "sock s \<noteq> None"
  proof -
    have a: "close_socket E s1 = sock_close E s1"
      using that sock1 by (simp add: close_socket_def)
    have "calls s2 = Suc (calls s1)"
      using c2 a by (auto simp: sock_close_def split: sock_event.splits)
    then have "calls (snd (close E s)) = Suc (calls s1)"
      using c1 c2 by (simp add: close_def Let_def)
    then show ?thesis using a by simp
  qed
  show ?thesis
    using attrs res len sc close_session_cases [of s E e b] by simp
qed

lemma close_quiet_connected:
  "fst (priv_forward_close quiet_env connected_driver) = Inr True"
  "fst (close quiet_env connected_driver) = Inr ()"
  "map (\<lambda>f. kind (f_request f)) (wire (snd (close quiet_env connected_driver)))
     = map (\<lambda>f. kind (f_request f)) (wire connected_driver)
       @ [GenericUnconnected, UnregisterSession]"
  by (simp_all add: connected_driver_def run_defs first_draw)

lemma close_broken_at:
  "fst (priv_forward_close (broken_at 7) connected_driver)
     = Inl (Exn CommError ''failed to send message'' (Some (Exn OSError ''broken pipe'' None)))"
  "fst (close (broken_at 7) connected_driver) = Inl (Exn CommError ''failed to send message'' None)"
  "wire (snd (close (broken_at 7) connected_driver)) = wire connected_driver"
  "calls (snd (close (broken_at 7) connected_driver)) = 9"
  by (simp_all add: connected_driver_def run_defs first_draw)

lemma close_broken_from:
  "fst (close (broken_from 7) connected_driver)
     = Inl (Exn CommError ''failed to send message - broken pipe'' None)"
  "calls (snd (close (broken_from 7) connected_driver)) = 9"
  by (simp_all add: connected_driver_def run_defs first_draw)

text \<open>
  Claim C2 as stated fails on a connected driver with session 7, after 7 socket calls.
  When only the send of the forward close fails (call 7), \<open>close()\<close> makes two socket
  calls, the failed send and the socket close: no unregister frame is sent although the
  transport would have carried it. When every call from call 7 on fails, so that the
  unregister would fail as well, the aggregate fault holds the message of the forward
  close and that of the socket close, and none of an unregister.
\<close>

theorem close_teardown_counterexample:
  "target_is_connected connected_driver
   \<and> session connected_driver = Some 7
   \<and> calls connected_driver = 7
   \<and> fst (close (broken_at 7) connected_driver)
       = Inl (Exn CommError ''failed to send message'' None)
   \<and> wire (snd (close (broken_at 7) connected_driver)) = wire connected_driver
   \<and> calls (snd (close (broken_at 7) connected_driver)) = 9
   \<and> fst (close (broken_from 7) connected_driver)
       = Inl (Exn CommError ''failed to send message - broken pipe'' None)
   \<and> calls (snd (close (broken_from 7) connected_driver)) = 9"
  by (simp add: connected_driver_facts close_broken_at close_broken_from)

lemma close_registered:
  "\<not> target_is_connected registered_driver" "session registered_driver = Some 7"
  "fst (close quiet_env registered_driver) = Inr ()"
  by (simp_all add: run_defs)

lemma close_unregistered:
  "\<not> target_is_connected unregistered_driver" "session unregistered_driver = Some 0"
  "close_session quiet_env unregistered_driver = (Inr (), unregistered_driver)"
  by (simp_all add: unregistered_driver_eq fresh_driver_def op_defs env_defs)

text \<open>
  The cases on concrete drivers: connected on a quiet transport, connected with the
  forward close failing to send, registered but not connected, and session \<open>0\<close>.
\<close>

theorem close_teardown_witness:
  "sock connected_driver \<noteq> None
   \<and> target_is_connected connected_driver
   \<and> session connected_driver \<noteq> Some 0
   \<and> fst (priv_forward_close quiet_env connected_driver) = Inr True
   \<and> close_session quiet_env connected_driver
       = priv_un_register_session quiet_env (snd (priv_forward_close quiet_env connected_driver))
   \<and> fst (close quiet_env connected_driver) = Inr ()
   \<and> sock (snd (close quiet_env connected_driver)) = None
   \<and> fst (priv_forward_close (broken_at 7) connected_driver)
       = Inl (Exn CommError ''failed to send message'' (Some (Exn OSError ''broken pipe'' None)))
   \<and> close_session (broken_at 7) connected_driver
       = (Inl (Exn CommError ''failed to send message'' (Some (Exn OSError ''broken pipe'' None))),
          snd (priv_forward_close (broken_at 7) connected_driver))
   \<and> sock (snd (close (broken_at 7) connected_driver)) = None
   \<and> \<not> target_is_connected registered_driver \<and> session registered_driver \<noteq> Some 0
   \<and> close_session quiet_env registered_driver
       = priv_un_register_session quiet_env registered_driver
   \<and> \<not> target_is_connected unregistered_driver \<and> session unregistered_driver = Some 0
   \<and> close_session quiet_env unregistered_driver = (Inr (), unregistered_driver)"
  using close_teardown [of quiet_env connected_driver _ True]
    close_teardown [of "broken_at 7" connected_driver
      "Exn CommError ''failed to send message'' (Some (Exn OSError ''broken pipe'' None))"]
    close_teardown [of quiet_env registered_driver]
    close_teardown [of quiet_env unregistered_driver]
    connected_driver_facts close_quiet_connected close_broken_at close_registered
    close_unregistered
  by simp

section \<open>Generic messages: proofs\<close>

lemma exchange_returns_tag:
  "generic_message_exchange E a s = (Inr t, s') \<Longrightarrow>
   tag_name t = a_name a
   \<and> (\<exists>reply. tag_value t = resp_value (response_class E (generic_request a s) reply)
        \<and> tag_error t = resp_error (response_class E (generic_request a s) reply))"
  unfolding generic_message_exchange_def send_def
  by (auto split: if_splits prod.splits sum.splits)

lemma exchange_transport_ok:
  assumes "request_error E (generic_request a s) = None"
    and "saved (sequence s) \<noteq> []"
    and "sock s \<noteq> None"
    and "net E (calls s) = Returns x"
    and "net E (Suc (calls s)) = Returns reply"
  shows "fst (generic_message_exchange E a s) =
           Inr \<lparr>tag_name = a_name a,
                tag_value = resp_value (response_class E (generic_request a s) (Some reply)),
                tag_error = resp_error (response_class E (generic_request a s) (Some reply))\<rparr>"
  using assms
  by (auto simp: generic_message_exchange_def send_def build_request_def priv_send_def
      priv_receive_def next_cycle_def no_response_def generic_request_def
      split: option.splits)

lemma generic_message_guard:
  "a_connected a \<Longrightarrow>
   generic_message E a s =
     (case forward_open_with_fallback E s of
        (Inl e, s1) \<Rightarrow> (Inl e, s1)
      | (Inr True, s1) \<Rightarrow> generic_message_exchange E a s1
      | (Inr False, s1) \<Rightarrow>
          (Inl (Exn ResponseError
                  ''Target did not connected. <lambda> will not be executed.'' None), s1))"
  by (simp add: generic_message_def with_forward_open_def lambda_none_def
      split: prod.splits sum.splits bool.splits)

text \<open>
  Claim C3, as the code has it. An unconnected \<open>generic_message\<close> is its exchange alone.
  The exchange returns a \<open>Tag\<close> with the caller's name and the value and error of the
  decoded response, whatever the response says: once the request is valid and the
  transport carries the send and the receive, the result is that \<open>Tag\<close>, so a failure
  reported by the target is data. The exchange raises only the \<open>CommError\<close> of a failed
  send or receive. A connected \<open>generic_message\<close> runs the forward-open guard first: when
  the guard opens the connection the exchange follows, when the target rejects the
  forward open the \<open>ResponseError\<close>
  \<open>Target did not connected. <lambda> will not be executed.\<close> is raised, and a fault of
  the guard itself is passed on.
\<close>

theorem generic_message_result:
  "(\<not> a_connected a \<longrightarrow> generic_message E a s = generic_message_exchange E a s)
   \<and> (a_connected a \<and> fst (forward_open_with_fallback E s) = Inr True \<longrightarrow>
        generic_message E a s
          = generic_message_exchange E a (snd (forward_open_with_fallback E s)))
   \<and> (a_connected a \<and> fst (forward_open_with_fallback E s) = Inr False \<longrightarrow>
        generic_message E a s
          = (Inl (Exn ResponseError
                    ''Target did not connected. <lambda> will not be executed.'' None),
             snd (forward_open_with_fallback E s)))
   \<and> (a_connected a \<and> fst (forward_open_with_fallback E s) = Inl e \<longrightarrow>
        generic_message E a s = (Inl e, snd (forward_open_with_fallback E s)))
   \<and> (saved (sequence s) \<noteq> [] \<longrightarrow>
        (case fst (generic_message_exchange E a s) of
           Inr t \<Rightarrow>
             tag_name t = a_name a
             \<and> (\<exists>reply. tag_value t = resp_value (response_class E (generic_request a s) reply)
                  \<and> tag_error t = resp_error (response_class E (generic_request a s) reply))
         | Inl err \<Rightarrow>
             (\<exists>c. err = Exn CommError ''failed to send message'' (Some c)
                  \<or> err = Exn CommError ''failed to receive reply'' (Some c))))
   \<and> (request_error E (generic_request a s) = None \<and> saved (sequence s) \<noteq> []
        \<and> sock s \<noteq> None \<and> net E (calls s) = Returns x
        \<and> net E (Suc (calls s)) = Returns reply \<longrightarrow>
        fst (generic_message_exchange E a s) =
          Inr \<lparr>tag_name = a_name a,
               tag_value = resp_value (response_class E (generic_request a s) (Some reply)),
               tag_error = resp_error (response_class E (generic_request a s) (Some reply))\<rparr>)"
proof -
  obtain r s' where ex: "generic_message_exchange E a s = (r, s')"
    by (cases "generic_message_exchange E a s")
  have own: "(case fst (generic_message_exchange E a s) of
           Inr t \<Rightarrow>
             tag_name t = a_name a
             \<and> (\<exists>reply. tag_value t = resp_value (response_class E (generic_request a s) reply)
                  \<and> tag_error t = resp_error (response_class E (generic_request a s) reply))
         | Inl err \<Rightarrow>
             (\<exists>c. err = Exn CommError ''failed to send message'' (Some c)
                  \<or> err = Exn CommError ''failed to receive reply'' (Some c)))"
    if ne: "saved (sequence s) \<noteq> []"
  proof (cases r)
    case (Inl err)
    then show ?thesis
      using exchange_faults [of E a s err s'] ex ne by auto
  next
    case (Inr t)
    then show ?thesis
      using exchange_returns_tag [of E a s t s'] ex by simp
  qed
  have guard: "a_connected a \<and> fst (forward_open_with_fallback E s) = Inr True \<longrightarrow>
        generic_message E a s
          = generic_message_exchange E a (snd (forward_open_with_fallback E s))"
    "a_connected a \<and> fst (forward_open_with_fallback E s) = Inr False \<longrightarrow>
        generic_message E a s
          = (Inl (Exn ResponseError
                    ''Target did not connected. <lambda> will not be executed.'' None),
             snd (forward_open_with_fallback E s))"
    "a_connected a \<and> fst (forward_open_with_fallback E s) = Inl e \<longrightarrow>
        generic_message E a s = (Inl e, snd (forward_open_with_fallback E s))"
    by (auto simp: generic_message_guard split: prod.splits)
  have plain: "\<not> a_connected a \<longrightarrow> generic_message E a s = generic_message_exchange E a s"
    by (simp add: generic_message_def)
  show ?thesis
    using own guard plain exchange_transport_ok [of E a s x reply]
    by blast
qed

lemma rejecting_fallback:
  "fst (forward_open_with_fallback rejecting_env registered_driver) = Inr False"
  by (simp add: run_defs)

lemma quiet_fallback:
  "fst (forward_open_with_fallback quiet_env registered_driver) = Inr True"
  by (simp add: run_defs)

lemma broken_fallback:
  "fst (forward_open_with_fallback (broken_at 3) registered_driver)
     = Inl (Exn CommError ''failed to send message'' (Some (Exn OSError ''broken pipe'' None)))"
  by (simp add: run_defs)

lemma rejecting_net: "net rejecting_env n = Returns []"
  by (simp add: env_defs)

lemma rejecting_request_error: "request_error rejecting_env rq = None"
  by (simp add: env_defs)

lemma rejecting_decodes_forward_open:
  "response_class rejecting_env
     (generic_request (forward_open_args registered_driver) registered_driver) (Some []) = rejected"
  by (simp add: env_defs generic_request_def forward_open_args_def registered_driver_eq
      fresh_driver_def)

text \<open>
  Claim C3 as stated fails on a registered driver whose target rejects the forward
  open. The four socket calls of the two attempts all succeed, so there is no transport
  failure, and the connected \<open>generic_message\<close> raises.
\<close>

theorem generic_message_result_counterexample:
  "map (net rejecting_env) [3, 4, 5, 6] = [Returns [], Returns [], Returns [], Returns []]
   \<and> calls registered_driver = 3
   \<and> calls (snd (generic_message rejecting_env (sample_args True) registered_driver)) = 7
   \<and> fst (generic_message rejecting_env (sample_args True) registered_driver)
       = Inl (Exn ResponseError ''Target did not connected. <lambda> will not be executed.'' None)"
proof -
  have c: "a_connected (sample_args True)"
    by (simp add: sample_args_def)
  obtain s1 where f: "forward_open_with_fallback rejecting_env registered_driver = (Inr False, s1)"
    using rejecting_fallback
    by (cases "forward_open_with_fallback rejecting_env registered_driver") simp
  have "fst (generic_message rejecting_env (sample_args True) registered_driver)
       = Inl (Exn ResponseError ''Target did not connected. <lambda> will not be executed.'' None)"
    by (simp add: generic_message_guard [OF c] f)
  moreover have "calls (snd (generic_message rejecting_env (sample_args True) registered_driver)) = 7"
    by (simp add: run_defs)
  ultimately show ?thesis
    by (simp add: rejecting_net registered_facts)
qed

text \<open>
  The cases on a registered driver: the forward open sent as an unconnected message to a
  target that rejects it comes back as a \<open>Tag\<close> carrying the error; a connected message
  on a target that accepts, on one that rejects, and on a transport whose next send
  fails.
\<close>

theorem generic_message_result_witness:
  "\<not> a_connected (forward_open_args registered_driver)
   \<and> request_error rejecting_env
        (generic_request (forward_open_args registered_driver) registered_driver) = None
   \<and> saved (sequence registered_driver) \<noteq> []
   \<and> sock registered_driver \<noteq> None
   \<and> net rejecting_env (calls registered_driver) = Returns []
   \<and> net rejecting_env (Suc (calls registered_driver)) = Returns []
   \<and> fst (generic_message rejecting_env (forward_open_args registered_driver) registered_driver)
       = Inr \<lparr>tag_name = ''__FORWARD_OPEN__'', tag_value = None,
              tag_error = Some ''Connection failure''\<rparr>
   \<and> a_connected (sample_args True)
   \<and> fst (forward_open_with_fallback quiet_env registered_driver) = Inr True
   \<and> generic_message quiet_env (sample_args True) registered_driver
       = generic_message_exchange quiet_env (sample_args True)
           (snd (forward_open_with_fallback quiet_env registered_driver))
   \<and> fst (forward_open_with_fallback rejecting_env registered_driver) = Inr False
   \<and> fst (generic_message rejecting_env (sample_args True) registered_driver)
       = Inl (Exn ResponseError ''Target did not connected. <lambda> will not be executed.'' None)
   \<and> fst (forward_open_with_fallback (broken_at 3) registered_driver)
       = Inl (Exn CommError ''failed to send message'' (Some (Exn OSError ''broken pipe'' None)))
   \<and> fst (generic_message (broken_at 3) (sample_args True) registered_driver)
       = Inl (Exn CommError ''failed to send message'' (Some (Exn OSError ''broken pipe'' None)))"
proof -
  have nc: "\<not> a_connected (forward_open_args registered_driver)"
    "a_name (forward_open_args registered_driver) = ''__FORWARD_OPEN__''"
    by (simp_all add: forward_open_args_def)
  have c: "a_connected (sample_args True)"
    by (simp add: sample_args_def)
  have rj: "resp_value rejected = None" "resp_error rejected = Some ''Connection failure''"
    by (simp_all add: rejected_def)
  show ?thesis
    using generic_message_result [of "forward_open_args registered_driver" rejecting_env
        registered_driver _ "[]" "[]"]
      generic_message_result [of "sample_args True" quiet_env registered_driver]
      generic_message_result [of "sample_args True" rejecting_env registered_driver]
      generic_message_result [of "sample_args True" "broken_at 3" registered_driver
        "Exn CommError ''failed to send message'' (Some (Exn OSError ''broken pipe'' None))"]
      nc c rj registered_facts rejecting_net rejecting_request_error
      rejecting_decodes_forward_open quiet_fallback rejecting_fallback broken_fallback
    by simp
qed

end
